theory Spec2Isabelle
  imports Main "HOL-Library.Word"
begin

unbundle bit_operations_syntax

section \<open>Values of the host language\<close>

text \<open>
  A \<open>Buffer\<close> is a sequence of bytes. A JavaScript string is modelled as a \<open>string\<close>
  (code units below 256). The \<open>number\<close>-typed fields of the program (threshold and
  timelocks) hold block counts and signature counts; they are modelled at their integer
  values, as \<open>int\<close>, so that zero and negative values stay expressible: an \<open>int\<close>
  stands for the number of that value, for the integers that a number (a double) holds.
  \<open>NaN\<close>, infinities and fractions are outside the embedding.
\<close>

type_synonym Buffer = "8 word list"

text \<open>
  Exceptions are values. \<open>Error msg\<close> is \<open>new Error(msg)\<close> thrown by the program itself;
  \<open>TypeError\<close> and \<open>RangeError\<close> are the exceptions of the runtime library
  (\<open>Buffer.concat\<close> on a list holding \<open>undefined\<close>, \<open>writeUInt16BE\<close> on a value
  outside 0..65535); \<open>External msg\<close> is whatever an external collaborator raises.
\<close>

datatype error = Error string | TypeError | RangeError | External string

text \<open>
  The compiled policy object of the external library \<open>@bitgo/wasm-miniscript\<close>, seen
  through the two methods the program calls on it: \<open>toString()\<close> and \<open>encode()\<close>.
\<close>

record Miniscript =
  ms_toString :: string
  ms_encode :: Buffer

text \<open>
  A value of type \<open>unknown\<close> handed to the renderer. \<open>Other t\<close> is any value of a
  kind the renderer does not know (boolean, plain object, null, bigint, ...), with
  \<open>t\<close> the name that \<open>typeof\<close> gives it.
\<close>

datatype arg =
    Undefined
  | Buf Buffer
  | Ms Miniscript
  | Str string
  | Num int
  | Arr "arg list"
  | Other string

fun typeof :: "arg \<Rightarrow> string" where
  "typeof Undefined = ''undefined''"
| "typeof (Buf b) = ''object''"
| "typeof (Ms m) = ''object''"
| "typeof (Str s) = ''string''"
| "typeof (Num n) = ''number''"
| "typeof (Arr xs) = ''object''"
| "typeof (Other t) = t"

subsection \<open>Library functions: hexadecimal and decimal rendering, join, whitespace\<close>

text \<open>\<open>buf.toString("hex")\<close>: two lowercase hexadecimal digits per byte.\<close>

definition hexDigit :: "nat \<Rightarrow> char" where
  "hexDigit n = ''0123456789abcdef'' ! n"

definition hexByte :: "8 word \<Rightarrow> string" where
  "hexByte b = [hexDigit (unat (drop_bit 4 b)), hexDigit (unat (b AND 15))]"

definition toHex :: "Buffer \<Rightarrow> string" where
  "toHex b = concat (map hexByte b)"

text \<open>
  \<open>Number.prototype.toString()\<close> at an integer, as the language standard defines it
  (Number::toString, radix 10). For a number \<open>x > 0\<close> it takes integers \<open>n\<close>, \<open>k\<close>
  and \<open>s\<close> with \<open>k \<ge> 1\<close>, \<open>10^(k-1) \<le> s < 10^k\<close>, such that \<open>s * 10^(n-k)\<close>
  rounds to the double \<open>x\<close>, with \<open>k\<close> as small as possible and, among several such
  \<open>s\<close>, the one nearest to \<open>x\<close> (an even \<open>s\<close> on a tie). The digits of \<open>s\<close> are
  printed, followed by \<open>n - k\<close> zeros when \<open>n \<le> 21\<close>, and in exponent notation
  otherwise. For an integer \<open>x\<close>, \<open>n - k\<close> is never negative; it is \<open>m\<close> below.
\<close>

text \<open>The decimal digits of a natural number, most significant first.\<close>

definition digitChar :: "nat \<Rightarrow> char" where
  "digitChar n = ''0123456789'' ! n"

fun digits :: "nat \<Rightarrow> string" where
  "digits n = (if n < 10 then [digitChar n] else digits (n div 10) @ [digitChar (n mod 10)])"

declare digits.simps [simp del]

text \<open>
  Rounding an integer to the nearest double: below \<open>2^53\<close> every integer is a double;
  above, a double is a multiple of \<open>q = 2^(bitLength v - 53)\<close>, and a tie goes to the
  even multiple. (Values from \<open>2^1024\<close> on, which round to infinity, are not modelled.)
\<close>

fun bitLength :: "nat \<Rightarrow> nat" where
  "bitLength v = (if v = 0 then 0 else Suc (bitLength (v div 2)))"

declare bitLength.simps [simp del]

definition roundAt :: "nat \<Rightarrow> nat \<Rightarrow> nat" where
  "roundAt q v =
     (if 2 * (v mod q) < q then (v div q) * q
      else if q < 2 * (v mod q) then (v div q) * q + q
      else if even (v div q) then (v div q) * q
      else (v div q) * q + q)"

definition roundToDouble :: "nat \<Rightarrow> nat" where
  "roundToDouble v = (if v < 2 ^ 53 then v else roundAt (2 ^ (bitLength v - 53)) v)"

text \<open>
  The candidates with \<open>k\<close> digits for a number \<open>x\<close> of \<open>d\<close> decimal digits: the
  multiples of \<open>10^m\<close> next to \<open>x\<close>, below and above, for the two exponents \<open>m\<close> that
  can give \<open>k\<close> digits, kept when \<open>s\<close> has \<open>k\<close> digits and \<open>s * 10^m\<close> rounds to \<open>x\<close>.
\<close>

definition fits :: "nat \<Rightarrow> nat \<Rightarrow> nat \<times> nat \<Rightarrow> bool" where
  "fits x k c =
     (if 10 ^ (k - 1) \<le> fst c \<and> fst c < 10 ^ k then roundToDouble (fst c * 10 ^ snd c) = x
      else False)"

definition candidates :: "nat \<Rightarrow> nat \<Rightarrow> nat \<Rightarrow> (nat \<times> nat) list" where
  "candidates x d k =
     filter (fits x k)
       [(x div 10 ^ (d - k), d - k), (x div 10 ^ (d - k) + 1, d - k),
        (x div 10 ^ (d + 1 - k), d + 1 - k), (x div 10 ^ (d + 1 - k) + 1, d + 1 - k)]"

text \<open>Among the candidates, the one nearest to \<open>x\<close>; on a tie the even one.\<close>

definition distance :: "nat \<Rightarrow> nat \<Rightarrow> nat" where
  "distance a b = (if a \<le> b then b - a else a - b)"

definition closer :: "nat \<Rightarrow> nat \<times> nat \<Rightarrow> nat \<times> nat \<Rightarrow> bool" where
  "closer x c c' =
     (distance (fst c * 10 ^ snd c) x < distance (fst c' * 10 ^ snd c') x
      \<or> (distance (fst c * 10 ^ snd c) x = distance (fst c' * 10 ^ snd c') x \<and> even (fst c)))"

fun closest :: "nat \<Rightarrow> (nat \<times> nat) list \<Rightarrow> (nat \<times> nat) option" where
  "closest x [] = None"
| "closest x (c # cs) =
     (case closest x cs of
        None \<Rightarrow> Some c
      | Some c' \<Rightarrow> if closer x c c' then Some c else Some c')"

text \<open>The smallest \<open>k\<close> that has a candidate, tried from \<open>k\<close> upwards, \<open>fuel\<close> times.\<close>

fun shortest :: "nat \<Rightarrow> nat \<Rightarrow> nat \<Rightarrow> nat \<Rightarrow> (nat \<times> nat \<times> nat) option" where
  "shortest x d k 0 = None"
| "shortest x d k (Suc fuel) =
     (case closest x (candidates x d k) of
        Some c \<Rightarrow> Some (k, c)
      | None \<Rightarrow> shortest x d (Suc k) fuel)"

text \<open>
  The printed form of \<open>(k, s, m)\<close>: plain digits up to 21 digits in all, exponent
  notation beyond.
\<close>

definition formatDecimal :: "nat \<times> nat \<times> nat \<Rightarrow> string" where
  "formatDecimal r =
     (case r of (k, s, m) \<Rightarrow>
        if m + k \<le> 21 then digits s @ replicate m CHR ''0''
        else if k = 1 then digits s @ ''e+'' @ digits (m + k - 1)
        else take 1 (digits s) @ ''.'' @ drop 1 (digits s) @ ''e+'' @ digits (m + k - 1))"

text \<open>
  An integer that no double holds has no candidate at all; it is not a number, and the
  last case is never reached on a number.
\<close>

definition natToString :: "nat \<Rightarrow> string" where
  "natToString x =
     (if x = 0 then ''0''
      else case shortest x (length (digits x)) 1 (length (digits x)) of
             Some r \<Rightarrow> formatDecimal r
           | None \<Rightarrow> digits x)"

definition numberToString :: "int \<Rightarrow> string" where
  "numberToString n = (if n < 0 then ''-'' @ natToString (nat (- n)) else natToString (nat n))"

text \<open>\<open>Array.prototype.join(sep)\<close> on an array of strings.\<close>

fun joinStr :: "string \<Rightarrow> string list \<Rightarrow> string" where
  "joinStr sep [] = []"
| "joinStr sep [x] = x"
| "joinStr sep (x # y # ys) = x @ sep @ joinStr sep (y # ys)"

text \<open>
  The character class \<open>\s\<close> of a regular expression, on code units below 256: tab, line
  feed, vertical tab, form feed, carriage return, space and the no-break space.
\<close>

definition isWhitespace :: "char \<Rightarrow> bool" where
  "isWhitespace c = (c \<in> set [CHR 0x09, CHR 0x0A, CHR 0x0B, CHR 0x0C, CHR 0x0D, CHR 0x20, CHR 0xA0])"

text \<open>\<open>str.replace(/\s+/g, "")\<close>: every run of whitespace is deleted.\<close>

definition stripWs :: "string \<Rightarrow> string" where
  "stripWs str = filter (\<lambda>c. \<not> isWhitespace c) str"

section \<open>The policy template renderer (formatMs.ts)\<close>

fun formatArg :: "arg \<Rightarrow> error + string" where
  "formatArg (Buf b) = Inr (toHex b)"
| "formatArg (Ms m) = Inr (ms_toString m)"
| "formatArg (Str s) = Inr s"
| "formatArg (Num n) = Inr (numberToString n)"
| "formatArg a = Inl (Error (''Unsupported type: '' @ typeof a))"

text \<open>The test of \<open>flatArray\<close> on one element of the array.\<close>

fun supported :: "arg \<Rightarrow> bool" where
  "supported (Buf b) = True"
| "supported (Ms m) = True"
| "supported (Str s) = True"
| "supported (Num n) = True"
| "supported a = False"

text \<open>\<open>arr.map(f)\<close> where \<open>f\<close> may throw: the first exception ends the map.\<close>

fun mapE :: "('a \<Rightarrow> error + 'b) \<Rightarrow> 'a list \<Rightarrow> error + 'b list" where
  "mapE f [] = Inr []"
| "mapE f (x # xs) =
     (case f x of
        Inl e \<Rightarrow> Inl e
      | Inr y \<Rightarrow> (case mapE f xs of Inl e \<Rightarrow> Inl e | Inr ys \<Rightarrow> Inr (y # ys)))"

definition flatArray :: "arg list \<Rightarrow> error + arg" where
  "flatArray arr =
     (if list_all supported arr
      then (case mapE formatArg arr of Inl e \<Rightarrow> Inl e | Inr ss \<Rightarrow> Inr (Str (joinStr '','' ss)))
      else Inl (Error ''Unsupported type''))"

fun isArray :: "arg \<Rightarrow> bool" where
  "isArray (Arr xs) = True"
| "isArray a = False"

fun elements :: "arg \<Rightarrow> arg list" where
  "elements (Arr xs) = xs"
| "elements a = []"

text \<open>
  \<open>formatMs\<close> calls itself once on the flattened array, which is a string. (The two
  \<open>console.log\<close> calls of the file write a trace and do not touch the result.)
\<close>

function formatMs :: "string \<Rightarrow> arg \<Rightarrow> error + string" where
  "formatMs str arg =
     (let str' = stripWs str in
      if arg = Undefined then Inr str'
      else if isArray arg then
        (case flatArray (elements arg) of
           Inl e \<Rightarrow> Inl e
         | Inr flat \<Rightarrow> formatMs str' flat)
      else
        (case formatArg arg of
           Inl e \<Rightarrow> Inl e
         | Inr s \<Rightarrow> Inr (str' @ s)))"
  by pat_completeness auto
termination
  by (relation "measure (\<lambda>(str, arg). if isArray arg then 1 else 0)")
     (auto simp: flatArray_def split: if_splits sum.splits)

declare formatMs.simps [simp del]

text \<open>\<open>args[i]\<close>: reading past the end of an array gives \<open>undefined\<close>.\<close>

definition argAt :: "arg list \<Rightarrow> nat \<Rightarrow> arg" where
  "argAt args i = (if i < length args then args ! i else Undefined)"

text \<open>
  \<open>strings.reduce((acc, str, i) => acc + formatMs(str, args[i]), "")\<close>: the loop over
  the literal fragments, with the index and the accumulator.
\<close>

fun reduceMs :: "arg list \<Rightarrow> string list \<Rightarrow> nat \<Rightarrow> string \<Rightarrow> error + string" where
  "reduceMs args [] i acc = Inr acc"
| "reduceMs args (str # strings) i acc =
     (case formatMs str (argAt args i) of
        Inl e \<Rightarrow> Inl e
      | Inr s \<Rightarrow> reduceMs args strings (Suc i) (acc @ s))"

definition msString :: "string list \<Rightarrow> arg list \<Rightarrow> error + string" where
  "msString strings args = reduceMs args strings 0 ''''"

text \<open>
  \<open>Miniscript.fromString(msString, "tap")\<close> belongs to the external library; it is the
  parameter \<open>fromString\<close>.
\<close>

definition formatMsVararg ::
  "(string \<Rightarrow> error + Miniscript) \<Rightarrow> string list \<Rightarrow> arg list \<Rightarrow> error + Miniscript" where
  "formatMsVararg fromString strings args =
     (case msString strings args of
        Inl e \<Rightarrow> Inl e
      | Inr s \<Rightarrow> fromString s)"

definition miniscript ::
  "(string \<Rightarrow> error + Miniscript) \<Rightarrow> string list \<Rightarrow> arg list \<Rightarrow> error + Miniscript" where
  "miniscript = formatMsVararg"

section \<open>The staking script data (stakingScriptMini.ts)\<close>

definition PK_LENGTH :: nat where
  "PK_LENGTH = 32"

definition toBuffer :: "Miniscript \<Rightarrow> Buffer" where
  "toBuffer ms = ms_encode ms"

record StakingScriptDataMini =
  stakerKey :: Buffer
  finalityProviderKeys :: "Buffer list"
  covenantKeys :: "Buffer list"
  covenantThreshold :: int
  stakingTimeLock :: int
  unbondingTimeLock :: int
  magicBytes :: Buffer

text \<open>
  The operator \<open>!\<close> of the constructor's first test. A \<open>Buffer\<close> or an array is an
  object, and an object is never falsy, whatever its length; a number is falsy when it
  is zero.
\<close>

definition falsyObject :: "'a list \<Rightarrow> bool" where
  "falsyObject x = False"

definition falsyNumber :: "int \<Rightarrow> bool" where
  "falsyNumber n = (n = 0)"

definition validate :: "StakingScriptDataMini \<Rightarrow> bool" where
  "validate d =
     (if length (stakerKey d) \<noteq> PK_LENGTH then False
      else if list_ex (\<lambda>finalityProviderKey. length finalityProviderKey \<noteq> PK_LENGTH)
                (finalityProviderKeys d) then False
      else if list_ex (\<lambda>covenantKey. length covenantKey \<noteq> PK_LENGTH) (covenantKeys d) then False
      else if stakingTimeLock d > 65535 then False
      else True)"

definition constructor ::
  "Buffer \<Rightarrow> Buffer list \<Rightarrow> Buffer list \<Rightarrow> int \<Rightarrow> int \<Rightarrow> int \<Rightarrow> Buffer
     \<Rightarrow> error + StakingScriptDataMini" where
  "constructor stakerKey' finalityProviderKeys' covenantKeys' covenantThreshold'
       stakingTimelock' unbondingTimelock' magicBytes' =
     (if falsyObject stakerKey' \<or> falsyObject finalityProviderKeys' \<or> falsyObject covenantKeys'
         \<or> falsyNumber covenantThreshold' \<or> falsyNumber stakingTimelock'
         \<or> falsyNumber unbondingTimelock' \<or> falsyObject magicBytes'
      then Inl (Error ''Missing required input values'')
      else
        (let this = \<lparr> stakerKey = stakerKey',
                      finalityProviderKeys = finalityProviderKeys',
                      covenantKeys = covenantKeys',
                      covenantThreshold = covenantThreshold',
                      stakingTimeLock = stakingTimelock',
                      unbondingTimeLock = unbondingTimelock',
                      magicBytes = magicBytes' \<rparr>
         in if \<not> validate this then Inl (Error ''Invalid script data provided'')
            else Inr this))"

subsection \<open>The four policy scripts\<close>

text \<open>
  Each builder renders a tagged template and hands the text to \<open>fromString\<close>. The
  literal fragments are those of the source, line breaks and indentation included.
\<close>

definition buildTimelockScript ::
  "(string \<Rightarrow> error + Miniscript) \<Rightarrow> StakingScriptDataMini \<Rightarrow> int \<Rightarrow> error + Buffer" where
  "buildTimelockScript fromString this timelock =
     map_sum id toBuffer
       (miniscript fromString
          [''and_v(v:pk('', ''),older('', ''))'']
          [Buf (stakerKey this), Num timelock])"

definition buildStakingTimelockScript ::
  "(string \<Rightarrow> error + Miniscript) \<Rightarrow> StakingScriptDataMini \<Rightarrow> error + Buffer" where
  "buildStakingTimelockScript fromString this =
     buildTimelockScript fromString this (stakingTimeLock this)"

definition buildUnbondingTimelockScript ::
  "(string \<Rightarrow> error + Miniscript) \<Rightarrow> StakingScriptDataMini \<Rightarrow> error + Buffer" where
  "buildUnbondingTimelockScript fromString this =
     buildTimelockScript fromString this (unbondingTimeLock this)"

definition buildUnbondingScript ::
  "(string \<Rightarrow> error + Miniscript) \<Rightarrow> StakingScriptDataMini \<Rightarrow> error + Buffer" where
  "buildUnbondingScript fromString this =
     map_sum id toBuffer
       (miniscript fromString
          [''and_v(\<newline>        v:pk('',
           ''),\<newline>        multi_a(\<newline>          '',
           '',\<newline>          '',
           ''\<newline>          )\<newline>        )'']
          [Buf (stakerKey this),
           Num (covenantThreshold this),
           Arr (map Buf (covenantKeys this))])"

definition buildSlashingScript ::
  "(string \<Rightarrow> error + Miniscript) \<Rightarrow> StakingScriptDataMini \<Rightarrow> error + Buffer" where
  "buildSlashingScript fromString this =
     map_sum id toBuffer
       (miniscript fromString
          [''\<newline>    and_v(\<newline>      and_v(\<newline>        v:pk('',
           ''),\<newline>        '',
           ''\<newline>      ),\<newline>      multi_a('',
           '','',
           '')\<newline>    )'']
          [Buf (stakerKey this),
           Arr (map (\<lambda>pk. Str (''v:pk('' @ toHex pk @ '')'')) (finalityProviderKeys this)),
           Num (covenantThreshold this),
           Arr (map Buf (covenantKeys this))])"

subsection \<open>The data embed script\<close>

text \<open>
  \<open>buf.writeUInt16BE(value)\<close> on a fresh two-byte buffer: the high byte, then the low
  byte; a value outside 0..65535 raises a \<open>RangeError\<close>.
\<close>

definition writeUInt16BE :: "int \<Rightarrow> error + Buffer" where
  "writeUInt16BE v =
     (if 0 \<le> v \<and> v \<le> 65535 then Inr [word_of_int (v div 256), word_of_int (v mod 256)]
      else Inl RangeError)"

text \<open>\<open>keys[0]\<close>: the first element, or \<open>undefined\<close> (here \<open>None\<close>) on an empty array.\<close>

definition first :: "'a list \<Rightarrow> 'a option" where
  "first xs = (case xs of [] \<Rightarrow> None | x # rest \<Rightarrow> Some x)"

text \<open>\<open>Buffer.concat(list)\<close>: an element that is not a buffer raises a \<open>TypeError\<close>.\<close>

fun Buffer_concat :: "Buffer option list \<Rightarrow> error + Buffer" where
  "Buffer_concat [] = Inr []"
| "Buffer_concat (None # bs) = Inl TypeError"
| "Buffer_concat (Some b # bs) =
     (case Buffer_concat bs of Inl e \<Rightarrow> Inl e | Inr r \<Rightarrow> Inr (b @ r))"

text \<open>The value of \<open>serializedStakingData\<close> inside \<open>buildDataEmbedScript\<close>.\<close>

definition serializedStakingData :: "StakingScriptDataMini \<Rightarrow> error + Buffer" where
  "serializedStakingData this =
     (let version = [0 :: 8 word] in
      case writeUInt16BE (stakingTimeLock this) of
        Inl e \<Rightarrow> Inl e
      | Inr stakingTimeLock' \<Rightarrow>
          Buffer_concat
            [Some (magicBytes this),
             Some version,
             Some (stakerKey this),
             first (finalityProviderKeys this),
             Some stakingTimeLock'])"

text \<open>
  \<open>script.compile\<close> of \<open>bitcoinjs-lib\<close> is the parameter \<open>compile\<close>: it takes the
  opcodes and data pushes of a script.
\<close>

datatype chunk = Opcode nat | Data Buffer

definition OP_RETURN :: nat where
  "OP_RETURN = 106"

definition buildDataEmbedScript ::
  "(chunk list \<Rightarrow> error + Buffer) \<Rightarrow> StakingScriptDataMini \<Rightarrow> error + Buffer" where
  "buildDataEmbedScript compile this =
     (case serializedStakingData this of
        Inl e \<Rightarrow> Inl e
      | Inr serializedStakingData' \<Rightarrow> compile [Opcode OP_RETURN, Data serializedStakingData'])"

subsection \<open>The bundle\<close>

record StakingScripts =
  timelockScript :: Buffer
  unbondingScript :: Buffer
  slashingScript :: Buffer
  unbondingTimelockScript :: Buffer
  dataEmbedScript :: Buffer

text \<open>
  The properties of the object literal are evaluated from top to bottom; the first
  exception leaves the function and no object is made.
\<close>

definition buildScripts ::
  "(string \<Rightarrow> error + Miniscript) \<Rightarrow> (chunk list \<Rightarrow> error + Buffer)
     \<Rightarrow> StakingScriptDataMini \<Rightarrow> error + StakingScripts" where
  "buildScripts fromString compile this =
     (case buildStakingTimelockScript fromString this of
        Inl e \<Rightarrow> Inl e
      | Inr t \<Rightarrow>
     (case buildUnbondingScript fromString this of
        Inl e \<Rightarrow> Inl e
      | Inr u \<Rightarrow>
     (case buildSlashingScript fromString this of
        Inl e \<Rightarrow> Inl e
      | Inr s \<Rightarrow>
     (case buildUnbondingTimelockScript fromString this of
        Inl e \<Rightarrow> Inl e
      | Inr ut \<Rightarrow>
     (case buildDataEmbedScript compile this of
        Inl e \<Rightarrow> Inl e
      | Inr de \<Rightarrow>
          Inr \<lparr> timelockScript = t,
                unbondingScript = u,
                slashingScript = s,
                unbondingTimelockScript = ut,
                dataEmbedScript = de \<rparr>)))))"

section \<open>The specification's words\<close>

text \<open>
  The definitions of this section are not taken from the program. They write down what
  the specification says, to be compared with the program.
\<close>

text \<open>
  Whitespace as the specification lists it: space, tab, newline, carriage return.
\<close>

definition removeWhitespace :: "string \<Rightarrow> string" where
  "removeWhitespace s = filter (\<lambda>c. c \<notin> set [CHR 0x20, CHR 0x09, CHR 0x0A, CHR 0x0D]) s"

text \<open>
  A homogeneous list: every element is of the same one of the four supported kinds
  (byte sequence, rendered policy, text, integer).
\<close>

fun sameKind :: "arg \<Rightarrow> arg \<Rightarrow> bool" where
  "sameKind (Buf a) (Buf b) = True"
| "sameKind (Ms a) (Ms b) = True"
| "sameKind (Str a) (Str b) = True"
| "sameKind (Num a) (Num b) = True"
| "sameKind a b = False"

definition homogeneous :: "arg list \<Rightarrow> bool" where
  "homogeneous xs = (case xs of [] \<Rightarrow> True | x # rest \<Rightarrow> list_all (sameKind x) xs)"

text \<open>
  The five invariants of the specification's data model, on the constructor's
  arguments (the unbonding timelock has none).
\<close>

definition fiveInvariants ::
  "Buffer \<Rightarrow> Buffer list \<Rightarrow> Buffer list \<Rightarrow> int \<Rightarrow> int \<Rightarrow> Buffer \<Rightarrow> bool" where
  "fiveInvariants sk fps cks ct st mb =
     (length sk = 32
      \<and> list_all (\<lambda>k. length k = 32) (fps @ cks)
      \<and> 1 \<le> st \<and> st \<le> 65535
      \<and> 1 \<le> ct \<and> ct \<le> int (length cks)
      \<and> mb \<noteq> [])"

text \<open>A decimal literal is a non-empty run of decimal digits; its value is read base 10.\<close>

definition isDecimalLiteral :: "string \<Rightarrow> bool" where
  "isDecimalLiteral s = (s \<noteq> [] \<and> list_all (\<lambda>c. c \<in> set ''0123456789'') s)"

definition decimalValue :: "string \<Rightarrow> nat" where
  "decimalValue s = foldl (\<lambda>a c. 10 * a + (of_char c - 48)) 0 s"

section \<open>Auxiliary facts\<close>

subsection \<open>The renderer\<close>

lemma stripWs_idem: "stripWs (stripWs s) = stripWs s"
  by (simp add: stripWs_def)

lemma formatMs_Undefined: "formatMs str Undefined = Inr (stripWs str)"
  by (simp add: formatMs.simps)

lemma formatMs_Buf: "formatMs str (Buf b) = Inr (stripWs str @ toHex b)"
  by (simp add: formatMs.simps)

lemma formatMs_Num: "formatMs str (Num n) = Inr (stripWs str @ numberToString n)"
  by (simp add: formatMs.simps)

lemma formatMs_Str: "formatMs str (Str s) = Inr (stripWs str @ s)"
  by (simp add: formatMs.simps)

lemma formatMs_Ms: "formatMs str (Ms m) = Inr (stripWs str @ ms_toString m)"
  by (simp add: formatMs.simps)

lemma formatMs_Other: "formatMs str (Other t) = Inl (Error (''Unsupported type: '' @ t))"
  by (simp add: formatMs.simps)

lemma formatMs_Arr:
  "formatMs str (Arr xs) =
     (case flatArray xs of Inl e \<Rightarrow> Inl e | Inr flat \<Rightarrow> formatMs (stripWs str) flat)"
  by (simp add: formatMs.simps [of str])

lemma formatMs_stripWs: "formatMs (stripWs str) arg = formatMs str arg"
  by (simp add: formatMs.simps [of str] formatMs.simps [of "stripWs str"] stripWs_idem)

lemma mapE_supported:
  "list_all supported xs \<Longrightarrow>
     \<exists>ss. mapE formatArg xs = Inr ss \<and> length ss = length xs
        \<and> (\<forall>i<length xs. formatArg (xs ! i) = Inr (ss ! i))"
proof (induction xs)
  case Nil
  then show ?case by simp
next
  case (Cons x xs)
  then obtain ss where ss: "mapE formatArg xs = Inr ss" "length ss = length xs"
      "\<forall>i<length xs. formatArg (xs ! i) = Inr (ss ! i)"
    by auto
  from Cons.prems have "supported x" by simp
  then obtain s where s: "formatArg x = Inr s"
    by (cases x) auto
  have "\<forall>i<length (x # xs). formatArg ((x # xs) ! i) = Inr ((s # ss) ! i)"
    using s ss(3) by (auto simp: nth_Cons split: nat.splits)
  with s ss(1,2) show ?case by auto
qed

lemma mapE_Buf: "mapE formatArg (map Buf bs) = Inr (map toHex bs)"
  by (induction bs) auto

lemma mapE_Str: "mapE formatArg (map Str ss) = Inr ss"
  by (induction ss) auto

lemma supported_Buf: "list_all supported (map Buf bs)"
  by (induction bs) auto

lemma supported_Str: "list_all supported (map Str bs)"
  by (induction bs) auto

lemma formatMs_Arr_Buf:
  "formatMs str (Arr (map Buf bs)) = Inr (stripWs str @ joinStr '','' (map toHex bs))"
  by (simp add: formatMs_Arr flatArray_def supported_Buf mapE_Buf formatMs_Str stripWs_idem)

lemma formatMs_Arr_Str:
  "formatMs str (Arr (map Str ss)) = Inr (stripWs str @ joinStr '','' ss)"
  by (simp add: formatMs_Arr flatArray_def supported_Str mapE_Str formatMs_Str stripWs_idem)

lemma formatMs_Arr_unsupported:
  "\<not> list_all supported xs \<Longrightarrow> formatMs str (Arr xs) = Inl (Error ''Unsupported type'')"
  by (simp add: formatMs_Arr flatArray_def)

lemma formatMs_Arr_supported:
  "mapE formatArg xs = Inr ss \<Longrightarrow> list_all supported xs \<Longrightarrow>
     formatMs str (Arr xs) = Inr (stripWs str @ joinStr '','' ss)"
  by (simp add: formatMs_Arr flatArray_def formatMs_Str stripWs_idem)

lemma formatMs_cong: "stripWs s = stripWs t \<Longrightarrow> formatMs s arg = formatMs t arg"
  by (metis formatMs_stripWs)

lemma reduceMs_cong:
  "list_all2 (\<lambda>s t. stripWs s = stripWs t) strings strings' \<Longrightarrow>
     reduceMs args strings i acc = reduceMs args strings' i acc"
proof (induction strings strings' arbitrary: i acc rule: list_all2_induct)
  case Nil
  then show ?case by simp
next
  case (Cons s ss t ts)
  have "formatMs s (argAt args i) = formatMs t (argAt args i)"
    using Cons.hyps(1) by (rule formatMs_cong)
  then show ?case using Cons.IH by (simp split: sum.splits)
qed

lemma reduceMs_no_args:
  "reduceMs [] strings i acc = Inr (acc @ concat (map stripWs strings))"
  by (induction strings arbitrary: i acc) (simp_all add: argAt_def formatMs_Undefined)

lemma stripWs_removeWhitespace: "stripWs (removeWhitespace s) = stripWs s"
  unfolding stripWs_def removeWhitespace_def filter_filter
  by (rule filter_cong) (auto simp: isWhitespace_def)

subsection \<open>Hexadecimal and decimal digits\<close>

lemma unat_hi: "unat (drop_bit 4 (b :: 8 word)) < 16"
proof -
  have "unat b < 256" using unsigned_less [of b, where ?'a = nat] by simp
  moreover have "unat (drop_bit 4 b) = unat b div 16"
    by (simp add: drop_bit_eq_div unat_div)
  ultimately show ?thesis by simp
qed

lemma unat_lo: "unat ((b :: 8 word) AND 15) < 16"
proof -
  have "b AND 15 = take_bit 4 b"
    by (simp add: take_bit_eq_mask mask_eq_exp_minus_1)
  then have "unat (b AND 15) = take_bit 4 (unat b)"
    by (simp add: unsigned_take_bit_eq)
  then show ?thesis
    using take_bit_nat_less_exp [of 4 "unat b"] by simp
qed

lemma hexDigit_lower: "n < 16 \<Longrightarrow> hexDigit n \<in> set ''0123456789abcdef''"
proof -
  assume n: "n < 16"
  have "list_all (\<lambda>n. hexDigit n \<in> set ''0123456789abcdef'') [0..<16]"
    by code_simp
  with n show ?thesis by (simp add: list_all_iff)
qed

lemma toHex_lower: "set (toHex b) \<subseteq> set ''0123456789abcdef''"
  unfolding toHex_def hexByte_def using hexDigit_lower [OF unat_hi] hexDigit_lower [OF unat_lo]
  by (induction b) auto

lemma toHex_length: "length (toHex b) = 2 * length b"
  by (induction b) (simp_all add: toHex_def hexByte_def)

lemma joinStr_snoc: "joinStr sep (xs @ [x]) = (if xs = [] then x else joinStr sep xs @ sep @ x)"
  by (induction sep xs rule: joinStr.induct) auto

lemma digitChar_props:
  "n < 10 \<Longrightarrow> digitChar n \<in> set ''0123456789'' \<and> (of_char (digitChar n) :: nat) - 48 = n"
proof -
  assume n: "n < 10"
  have "list_all (\<lambda>n. digitChar n \<in> set ''0123456789'' \<and> (of_char (digitChar n) :: nat) - 48 = n) [0..<10]"
    by code_simp
  with n show ?thesis by (simp add: list_all_iff)
qed

lemma digits_literal: "isDecimalLiteral (digits n)"
proof (induction n rule: digits.induct)
  case (1 n)
  show ?case
  proof (cases "n < 10")
    case True
    then show ?thesis using digitChar_props [of n]
      by (simp add: digits.simps [of n] isDecimalLiteral_def)
  next
    case False
    then have "isDecimalLiteral (digits (n div 10))" using 1 by simp
    moreover have "digitChar (n mod 10) \<in> set ''0123456789''"
      using digitChar_props [of "n mod 10"] by simp
    ultimately show ?thesis using False
      by (simp add: digits.simps [of n] isDecimalLiteral_def)
  qed
qed

lemma digits_value: "decimalValue (digits n) = n"
proof (induction n rule: digits.induct)
  case (1 n)
  show ?case
  proof (cases "n < 10")
    case True
    then show ?thesis using digitChar_props [of n]
      by (simp add: digits.simps [of n] decimalValue_def)
  next
    case False
    then have "decimalValue (digits (n div 10)) = n div 10" using 1 by simp
    moreover have "(of_char (digitChar (n mod 10)) :: nat) - 48 = n mod 10"
      using digitChar_props [of "n mod 10"] by simp
    ultimately show ?thesis using False
      by (simp add: digits.simps [of n] decimalValue_def)
  qed
qed

subsection \<open>The rendering of numbers\<close>

lemma bitLength_bounds: "v \<noteq> 0 \<Longrightarrow> 2 ^ (bitLength v - 1) \<le> v \<and> v < 2 ^ bitLength v"
proof (induction v rule: bitLength.induct)
  case (1 v)
  show ?case
  proof (cases "v div 2 = 0")
    case True
    with "1.prems" have "v = 1" by (simp add: div_eq_0_iff) 
    then show ?thesis by (simp add: bitLength.simps [of "Suc 0"] bitLength.simps [of 0])
  next
    case False
    with "1.IH" "1.prems" have ih: "2 ^ (bitLength (v div 2) - 1) \<le> v div 2"
        "v div 2 < 2 ^ bitLength (v div 2)"
      by simp_all
    have b: "bitLength v = Suc (bitLength (v div 2))"
      using "1.prems" by (simp add: bitLength.simps [of v])
    have pos: "bitLength (v div 2) \<noteq> 0"
      using False by (simp add: bitLength.simps [of "v div 2"])
    then have "2 ^ bitLength (v div 2) = 2 * (2::nat) ^ (bitLength (v div 2) - 1)"
      by (cases "bitLength (v div 2)") simp_all
    with ih(1) have lo: "2 ^ bitLength (v div 2) \<le> v" by linarith
    from ih(2) have hi: "v < 2 * 2 ^ bitLength (v div 2)" by linarith
    from lo hi b show ?thesis by simp
  qed
qed

lemma roundAt_ge: "(v div q) * q \<le> roundAt q v"
  by (simp add: roundAt_def)

lemma roundToDouble_large: "2 ^ 53 \<le> v \<Longrightarrow> 2 ^ 53 \<le> roundToDouble v"
proof -
  assume v: "(2::nat) ^ 53 \<le> v"
  then have nz: "v \<noteq> 0" by auto
  let ?b = "bitLength v"
  from bitLength_bounds [OF nz] have lo: "2 ^ (?b - 1) \<le> v" and hi: "v < 2 ^ ?b" by simp_all
  from v hi have "(2::nat) ^ 53 < 2 ^ ?b" by linarith
  then have b: "53 < ?b" using power_less_imp_less_exp [of 2 53 ?b] by simp
  let ?q = "(2::nat) ^ (?b - 53)"
  have "?b - 1 = 52 + (?b - 53)" using b by simp
  then have "(2::nat) ^ (?b - 1) = 2 ^ (52 + (?b - 53))" by (simp only:)
  then have split: "(2::nat) ^ (?b - 1) = 2 ^ 52 * ?q" by (simp only: power_add)
  have "2 ^ 52 * ?q \<le> v" using lo split by simp
  then have "2 ^ 52 \<le> v div ?q" by (simp add: less_eq_div_iff_mult_less_eq)
  then have "2 ^ 52 * ?q \<le> (v div ?q) * ?q" by simp
  also have "\<dots> \<le> roundAt ?q v" by (rule roundAt_ge)
  finally have "2 ^ (?b - 1) \<le> roundAt ?q v" using split by simp
  moreover have "(2::nat) ^ 53 \<le> 2 ^ (?b - 1)"
    using b power_increasing [of 53 "?b - 1" "2::nat"] by simp
  ultimately have "2 ^ 53 \<le> roundAt ?q v" by linarith
  with v show ?thesis by (simp add: roundToDouble_def)
qed

lemma roundToDouble_exact: "x < 2 ^ 53 \<Longrightarrow> roundToDouble c = x \<Longrightarrow> c = x"
proof (cases "c < 2 ^ 53")
  case True
  assume "roundToDouble c = x"
  with True show ?thesis by (simp add: roundToDouble_def)
next
  case False
  assume x: "x < 2 ^ 53" and r: "roundToDouble c = x"
  from False have "2 ^ 53 \<le> roundToDouble c" by (intro roundToDouble_large) simp
  with x r show ?thesis by simp
qed

lemma digits_length: "0 < x \<Longrightarrow> 10 ^ (length (digits x) - 1) \<le> x \<and> x < 10 ^ length (digits x)"
proof (induction x rule: digits.induct)
  case (1 n)
  show ?case
  proof (cases "n < 10")
    case True
    with "1.prems" show ?thesis by (simp add: digits.simps [of n])
  next
    case False
    then have pos: "0 < n div 10" by simp
    with "1.IH" False have ih: "10 ^ (length (digits (n div 10)) - 1) \<le> n div 10"
        "n div 10 < 10 ^ length (digits (n div 10))"
      by simp_all
    have len: "length (digits n) = Suc (length (digits (n div 10)))"
      using False by (simp add: digits.simps [of n])
    have "length (digits (n div 10)) \<noteq> 0" by (simp add: digits.simps [of "n div 10"])
    then have "10 ^ length (digits (n div 10)) = 10 * (10::nat) ^ (length (digits (n div 10)) - 1)"
      by (cases "length (digits (n div 10))") simp_all
    with ih(1) have lo: "10 ^ length (digits (n div 10)) \<le> n" by linarith
    from ih(2) have hi: "n < 10 * 10 ^ length (digits (n div 10))" by linarith
    from lo hi len show ?thesis by simp
  qed
qed

lemma digits_nonempty: "digits x \<noteq> []"
  by (simp add: digits.simps [of x])

lemma digits_shift: "0 < s \<Longrightarrow> digits (s * 10 ^ m) = digits s @ replicate m CHR ''0''"
proof (induction m)
  case 0
  then show ?case by simp
next
  case (Suc m)
  have big: "\<not> s * 10 ^ Suc m < 10" using Suc.prems by simp
  have "digits (s * 10 ^ Suc m)
      = digits ((s * 10 ^ Suc m) div 10) @ [digitChar ((s * 10 ^ Suc m) mod 10)]"
    using digits.simps [of "s * 10 ^ Suc m"] by (simp only: big if_False)
  also have "(s * 10 ^ Suc m) div 10 = s * 10 ^ m" by simp
  also have "(s * 10 ^ Suc m) mod 10 = 0" by simp
  finally show ?case using Suc by (simp add: digitChar_def replicate_append_same)
qed

lemma closest_mem: "closest x cs = Some c \<Longrightarrow> c \<in> set cs"
  by (induction cs arbitrary: c) (auto split: option.splits if_splits)

lemma closest_None: "closest x cs = None \<longleftrightarrow> cs = []"
  by (cases cs) (auto split: option.splits)

lemma shortest_sound:
  "shortest x d k fuel = Some (k', c) \<Longrightarrow> k \<le> k' \<and> k' < k + fuel \<and> c \<in> set (candidates x d k')"
proof (induction fuel arbitrary: k)
  case 0
  then show ?case by simp
next
  case (Suc fuel)
  show ?case
  proof (cases "closest x (candidates x d k)")
    case None
    with Suc.prems have "shortest x d (Suc k) fuel = Some (k', c)" by simp
    from Suc.IH [OF this] show ?thesis by simp
  next
    case (Some c')
    with Suc.prems have "k' = k" "c = c'" by simp_all
    with Some closest_mem show ?thesis by fastforce
  qed
qed

lemma shortest_complete:
  "k \<le> k0 \<Longrightarrow> k0 < k + fuel \<Longrightarrow> candidates x d k0 \<noteq> [] \<Longrightarrow> shortest x d k fuel \<noteq> None"
proof (induction fuel arbitrary: k)
  case 0
  then show ?case by simp
next
  case (Suc fuel)
  show ?case
  proof (cases "closest x (candidates x d k)")
    case (Some c')
    then show ?thesis by simp
  next
    case None
    then have e: "candidates x d k = []" by (simp add: closest_None)
    with Suc.prems have "k \<noteq> k0" by auto
    with Suc.prems have "Suc k \<le> k0" "k0 < Suc k + fuel" by simp_all
    from Suc.IH [OF this Suc.prems(3)] None show ?thesis by simp
  qed
qed

lemma candidates_mem:
  "(s, m) \<in> set (candidates x d k) \<Longrightarrow>
     10 ^ (k - 1) \<le> s \<and> roundToDouble (s * 10 ^ m) = x \<and> m \<le> d + 1 - k"
proof -
  assume a: "(s, m) \<in> set (candidates x d k)"
  have f: "fits x k (s, m)"
    using a unfolding candidates_def set_filter by blast
  have mem: "(s, m) \<in> set [(x div 10 ^ (d - k), d - k), (x div 10 ^ (d - k) + 1, d - k),
        (x div 10 ^ (d + 1 - k), d + 1 - k), (x div 10 ^ (d + 1 - k) + 1, d + 1 - k)]"
    using a unfolding candidates_def set_filter by blast
  from mem have "m = d - k \<or> m = d + 1 - k" by auto
  then have "m \<le> d + 1 - k" by auto
  moreover from f have "10 ^ (k - 1) \<le> s \<and> roundToDouble (s * 10 ^ m) = x"
    by (simp add: fits_def split: if_splits)
  ultimately show ?thesis by simp
qed

lemma natToString_small:
  assumes pos: "0 < x" and small: "x < 2 ^ 53"
  shows "natToString x = digits x"
proof -
  let ?d = "length (digits x)"
  from digits_length [OF pos] have lo: "10 ^ (?d - 1) \<le> x" and hi: "x < 10 ^ ?d" by simp_all
  have d1: "1 \<le> ?d" using digits_nonempty [of x] by (cases "digits x") simp_all
  have "(10::nat) ^ (?d - 1) < 10 ^ 16" using lo small by simp
  then have "?d - 1 < 16" by (simp only: power_strict_increasing_iff) 
  then have d16: "?d \<le> 16" by simp
  have "fits x ?d (x, 0)" using lo hi small by (simp add: fits_def roundToDouble_def)
  then have "(x, 0) \<in> set (candidates x ?d ?d)" by (simp add: candidates_def)
  then have "candidates x ?d ?d \<noteq> []" by auto
  with d1 have "shortest x ?d 1 ?d \<noteq> None" by (intro shortest_complete [where ?k0.0 = ?d]) simp_all
  then obtain k s m where r: "shortest x ?d 1 ?d = Some (k, s, m)" by auto
  from shortest_sound [OF r] have k: "1 \<le> k" "k \<le> ?d" and c: "(s, m) \<in> set (candidates x ?d k)"
    by simp_all
  from candidates_mem [OF c] have s: "10 ^ (k - 1) \<le> s" and rd: "roundToDouble (s * 10 ^ m) = x"
      and m: "m \<le> ?d + 1 - k"
    by simp_all
  from roundToDouble_exact [OF small rd] have val: "s * 10 ^ m = x" .
  from s have spos: "0 < s" by (metis less_le_trans zero_less_numeral zero_less_power)
  from m k d16 have n: "m + k \<le> 21" by simp
  have "natToString x = digits s @ replicate m CHR ''0''"
    using pos r n by (simp add: natToString_def formatDecimal_def)
  also have "\<dots> = digits (s * 10 ^ m)" using digits_shift [OF spos] by simp
  finally show ?thesis using val by simp
qed

lemma numberToString_safe:
  "- (2 ^ 53) < n \<Longrightarrow> n < 2 ^ 53 \<Longrightarrow>
     numberToString n = (if n < 0 then ''-'' @ digits (nat (- n)) else digits (nat n))"
proof -
  assume a: "- (2 ^ 53) < n" "n < 2 ^ 53"
  have z: "natToString 0 = digits 0" by (simp add: natToString_def digits.simps digitChar_def)
  show ?thesis
  proof (cases "n < 0")
    case True
    with a have "0 < nat (- n)" "nat (- n) < 2 ^ 53" by (simp_all add: nat_less_iff)
    from natToString_small [OF this] True show ?thesis by (simp add: numberToString_def)
  next
    case False
    show ?thesis
    proof (cases "n = 0")
      case True
      with z show ?thesis by (simp add: numberToString_def)
    next
      case nz: False
      with False a have "0 < nat n" "nat n < 2 ^ 53" by (simp_all add: nat_less_iff)
      from natToString_small [OF this] False show ?thesis by (simp add: numberToString_def)
    qed
  qed
qed

subsection \<open>The builders and the constructor\<close>

lemma buildTimelockScript_text:
  "buildTimelockScript fs this t =
     map_sum id toBuffer
       (fs (''and_v(v:pk('' @ toHex (stakerKey this) @ ''),older('' @ numberToString t @ ''))''))"
  by (simp add: buildTimelockScript_def miniscript_def formatMsVararg_def msString_def argAt_def
      formatMs_Buf formatMs_Num formatMs_Undefined stripWs_def isWhitespace_def split: sum.splits)

lemma buildUnbondingScript_text:
  "buildUnbondingScript fs this =
     map_sum id toBuffer
       (fs (''and_v(v:pk('' @ toHex (stakerKey this) @ ''),multi_a(''
            @ numberToString (covenantThreshold this) @ '','' 
            @ joinStr '','' (map toHex (covenantKeys this)) @ ''))''))"
  by (simp add: buildUnbondingScript_def miniscript_def formatMsVararg_def msString_def argAt_def
      formatMs_Buf formatMs_Num formatMs_Undefined formatMs_Arr_Buf stripWs_def isWhitespace_def
      split: sum.splits)

lemma formatMs_Arr_Str_map:
  "formatMs str (Arr (map (\<lambda>x. Str (f x)) xs)) = Inr (stripWs str @ joinStr '','' (map f xs))"
  using formatMs_Arr_Str [of str "map f xs"] by (simp add: comp_def)

lemma buildSlashingScript_text:
  "buildSlashingScript fs this =
     map_sum id toBuffer
       (fs (''and_v(and_v(v:pk('' @ toHex (stakerKey this) @ ''),''
            @ joinStr '','' (map (\<lambda>pk. ''v:pk('' @ toHex pk @ '')'') (finalityProviderKeys this))
            @ ''),multi_a(''
            @ numberToString (covenantThreshold this) @ '','' 
            @ joinStr '','' (map toHex (covenantKeys this)) @ ''))''))"
  by (simp add: buildSlashingScript_def miniscript_def formatMsVararg_def msString_def argAt_def
      formatMs_Buf formatMs_Num formatMs_Undefined formatMs_Arr_Buf formatMs_Arr_Str_map
      stripWs_def isWhitespace_def split: sum.splits)

lemma validate_iff:
  "validate d \<longleftrightarrow>
     length (stakerKey d) = 32 \<and> list_all (\<lambda>k. length k = 32) (finalityProviderKeys d)
     \<and> list_all (\<lambda>k. length k = 32) (covenantKeys d) \<and> stakingTimeLock d \<le> 65535"
  by (auto simp: validate_def PK_LENGTH_def list_ex_iff list_all_iff)

lemma constructor_Inr_iff:
  "constructor sk fps cks ct st ut mb = Inr d \<longleftrightarrow>
     ct \<noteq> 0 \<and> st \<noteq> 0 \<and> ut \<noteq> 0 \<and> length sk = 32 \<and> list_all (\<lambda>k. length k = 32) fps
     \<and> list_all (\<lambda>k. length k = 32) cks \<and> st \<le> 65535
     \<and> d = \<lparr> stakerKey = sk, finalityProviderKeys = fps, covenantKeys = cks,
             covenantThreshold = ct, stakingTimeLock = st, unbondingTimeLock = ut,
             magicBytes = mb \<rparr>"
  by (auto simp: constructor_def Let_def falsyObject_def falsyNumber_def validate_iff)

lemma serializedStakingData_ok:
  "finalityProviderKeys this = fp # rest \<Longrightarrow> 0 \<le> stakingTimeLock this \<Longrightarrow>
   stakingTimeLock this \<le> 65535 \<Longrightarrow>
   serializedStakingData this =
     Inr (magicBytes this @ [0] @ stakerKey this @ fp
          @ [word_of_int (stakingTimeLock this div 256), word_of_int (stakingTimeLock this mod 256)])"
  by (simp add: serializedStakingData_def writeUInt16BE_def first_def)

lemma serializedStakingData_empty:
  "finalityProviderKeys this = [] \<Longrightarrow>
   serializedStakingData this =
     (if 0 \<le> stakingTimeLock this \<and> stakingTimeLock this \<le> 65535 then Inl TypeError else Inl RangeError)"
  by (simp add: serializedStakingData_def writeUInt16BE_def first_def)

section \<open>The claims\<close>

subsection \<open>C1: when construction succeeds\<close>

text \<open>
  C1, as stated, fails in both directions. Construction succeeds with a threshold of 2
  over one covenant key, with empty magic bytes, with a threshold of -1 and with a
  staking timelock of -5, none of which satisfies the five invariants; and it fails on
  an unbonding timelock of 0 although the five invariants hold.
\<close>

theorem validation_iff_invariants_counterexample:
  "constructor (replicate 32 0) [replicate 32 1] [replicate 32 2] 2 100 10 [0xAA]
     = Inr \<lparr> stakerKey = replicate 32 0, finalityProviderKeys = [replicate 32 1],
             covenantKeys = [replicate 32 2], covenantThreshold = 2, stakingTimeLock = 100,
             unbondingTimeLock = 10, magicBytes = [0xAA] \<rparr>
   \<and> \<not> fiveInvariants (replicate 32 0) [replicate 32 1] [replicate 32 2] 2 100 [0xAA]
   \<and> constructor (replicate 32 0) [replicate 32 1] [replicate 32 2] 1 100 10 []
     = Inr \<lparr> stakerKey = replicate 32 0, finalityProviderKeys = [replicate 32 1],
             covenantKeys = [replicate 32 2], covenantThreshold = 1, stakingTimeLock = 100,
             unbondingTimeLock = 10, magicBytes = [] \<rparr>
   \<and> \<not> fiveInvariants (replicate 32 0) [replicate 32 1] [replicate 32 2] 1 100 []
   \<and> constructor (replicate 32 0) [replicate 32 1] [replicate 32 2] (- 1) 100 10 [0xAA]
     = Inr \<lparr> stakerKey = replicate 32 0, finalityProviderKeys = [replicate 32 1],
             covenantKeys = [replicate 32 2], covenantThreshold = - 1, stakingTimeLock = 100,
             unbondingTimeLock = 10, magicBytes = [0xAA] \<rparr>
   \<and> \<not> fiveInvariants (replicate 32 0) [replicate 32 1] [replicate 32 2] (- 1) 100 [0xAA]
   \<and> constructor (replicate 32 0) [replicate 32 1] [replicate 32 2] 1 (- 5) 10 [0xAA]
     = Inr \<lparr> stakerKey = replicate 32 0, finalityProviderKeys = [replicate 32 1],
             covenantKeys = [replicate 32 2], covenantThreshold = 1, stakingTimeLock = - 5,
             unbondingTimeLock = 10, magicBytes = [0xAA] \<rparr>
   \<and> \<not> fiveInvariants (replicate 32 0) [replicate 32 1] [replicate 32 2] 1 (- 5) [0xAA]
   \<and> constructor (replicate 32 0) [replicate 32 1] [replicate 32 2] 1 100 0 [0xAA]
     = Inl (Error ''Missing required input values'')
   \<and> fiveInvariants (replicate 32 0) [replicate 32 1] [replicate 32 2] 1 100 [0xAA]"
  by (simp add: constructor_def validate_def PK_LENGTH_def falsyObject_def falsyNumber_def
      fiveInvariants_def)

text \<open>
  C1, amended. Construction (the truthiness test of the constructor, then
  \<open>validate\<close>) succeeds if and only if the staker key is 32 bytes, every
  finality-provider key and every covenant key is 32 bytes, the staking timelock is not
  0 and at most 65535, the covenant threshold is not 0 and the unbonding timelock is
  not 0; the object it returns holds the arguments unchanged and passes \<open>validate\<close>.
  The threshold is not compared with the number of covenant keys, and the magic bytes
  are not required to be non-empty.
\<close>

theorem constructor_succeeds_iff:
  "(constructor sk fps cks ct st ut mb
      = Inr \<lparr> stakerKey = sk, finalityProviderKeys = fps, covenantKeys = cks,
              covenantThreshold = ct, stakingTimeLock = st, unbondingTimeLock = ut,
              magicBytes = mb \<rparr>
    \<longleftrightarrow> length sk = 32 \<and> list_all (\<lambda>k. length k = 32) fps \<and> list_all (\<lambda>k. length k = 32) cks
        \<and> st \<noteq> 0 \<and> st \<le> 65535 \<and> ct \<noteq> 0 \<and> ut \<noteq> 0)
   \<and> (constructor sk fps cks ct st ut mb = Inr this \<longrightarrow>
        validate this
        \<and> this = \<lparr> stakerKey = sk, finalityProviderKeys = fps, covenantKeys = cks,
                   covenantThreshold = ct, stakingTimeLock = st, unbondingTimeLock = ut,
                   magicBytes = mb \<rparr>)
   \<and> (isl (constructor sk fps cks ct st ut mb)
        \<longleftrightarrow> \<not> (length sk = 32 \<and> list_all (\<lambda>k. length k = 32) fps
               \<and> list_all (\<lambda>k. length k = 32) cks
               \<and> st \<noteq> 0 \<and> st \<le> 65535 \<and> ct \<noteq> 0 \<and> ut \<noteq> 0))"
proof -
  let ?r = "\<lparr> stakerKey = sk, finalityProviderKeys = fps, covenantKeys = cks,
              covenantThreshold = ct, stakingTimeLock = st, unbondingTimeLock = ut,
              magicBytes = mb \<rparr>"
  let ?ok = "length sk = 32 \<and> list_all (\<lambda>k. length k = 32) fps
        \<and> list_all (\<lambda>k. length k = 32) cks \<and> st \<noteq> 0 \<and> st \<le> 65535 \<and> ct \<noteq> 0 \<and> ut \<noteq> 0"
  have a: "constructor sk fps cks ct st ut mb = Inr ?r \<longleftrightarrow> ?ok"
    unfolding constructor_Inr_iff by blast
  have b: "constructor sk fps cks ct st ut mb = Inr this \<longrightarrow> validate this \<and> this = ?r"
  proof
    assume "constructor sk fps cks ct st ut mb = Inr this"
    then have r: "this = ?r" and ok: ?ok unfolding constructor_Inr_iff by blast+
    from ok have "validate ?r" by (simp add: validate_iff)
    with r show "validate this \<and> this = ?r" by simp
  qed
  have c: "isl (constructor sk fps cks ct st ut mb) \<longleftrightarrow> \<not> ?ok"
  proof (cases "constructor sk fps cks ct st ut mb")
    case (Inl e)
    then have "constructor sk fps cks ct st ut mb \<noteq> Inr ?r" by simp
    with a have "\<not> ?ok" by blast
    with Inl show ?thesis by simp
  next
    case (Inr d)
    then have ?ok unfolding constructor_Inr_iff by blast
    with Inr show ?thesis by simp
  qed
  from a b c show ?thesis by blast
qed

theorem constructor_succeeds_iff_witness:
  "constructor (replicate 32 0) [replicate 32 1] [replicate 32 2, replicate 32 3] 5 65535 70000 []
     = Inr \<lparr> stakerKey = replicate 32 0, finalityProviderKeys = [replicate 32 1],
             covenantKeys = [replicate 32 2, replicate 32 3], covenantThreshold = 5,
             stakingTimeLock = 65535, unbondingTimeLock = 70000, magicBytes = [] \<rparr>
   \<and> isl (constructor (replicate 31 0) [replicate 32 1] [replicate 32 2] 1 100 10 [0xAA])"
proof -
  note t1 = constructor_succeeds_iff [of "replicate 32 0" "[replicate 32 1]"
      "[replicate 32 2, replicate 32 3]" 5 65535 70000 "[]"]
  note t2 = constructor_succeeds_iff [of "replicate 31 0" "[replicate 32 1]" "[replicate 32 2]"
      1 100 10 "[0xAA]"]
  have h1: "length (replicate 32 (0 :: 8 word)) = 32
      \<and> list_all (\<lambda>k. length k = 32) [replicate 32 (1 :: 8 word)]
      \<and> list_all (\<lambda>k. length k = 32) [replicate 32 (2 :: 8 word), replicate 32 3]
      \<and> (65535 :: int) \<noteq> 0 \<and> (65535 :: int) \<le> 65535 \<and> (5 :: int) \<noteq> 0 \<and> (70000 :: int) \<noteq> 0"
    by simp
  have h2: "length (replicate 31 (0 :: 8 word)) \<noteq> 32" by simp
  from t1 h1 have c1: "constructor (replicate 32 0) [replicate 32 1]
      [replicate 32 2, replicate 32 3] 5 65535 70000 []
     = Inr \<lparr> stakerKey = replicate 32 0, finalityProviderKeys = [replicate 32 1],
             covenantKeys = [replicate 32 2, replicate 32 3], covenantThreshold = 5,
             stakingTimeLock = 65535, unbondingTimeLock = 70000, magicBytes = [] \<rparr>"
    by blast
  from t2 h2 have c2: "isl (constructor (replicate 31 0) [replicate 32 1] [replicate 32 2]
      1 100 10 [0xAA])"
    by blast
  from c1 c2 show ?thesis by (rule conjI)
qed

subsection \<open>C2: lists handed to the renderer\<close>

text \<open>
  C2, as stated, fails: the list holding the byte sequence \<open>ab cd\<close> and the number 1
  is not homogeneous, and it renders as \<open>abcd,1\<close> instead of failing.
\<close>

theorem mixed_list_renders_counterexample:
  "\<not> homogeneous [Buf [0xAB, 0xCD], Num 1]
   \<and> formatMs ''multi_a(2, '' (Arr [Buf [0xAB, 0xCD], Num 1]) = Inr ''multi_a(2,abcd,1''
   \<and> msString [''multi_a(2, '', '')''] [Arr [Buf [0xAB, 0xCD], Num 1]] = Inr ''multi_a(2,abcd,1)''"
proof -
  have n: "numberToString 1 = ''1''"
    by (simp add: numberToString_safe digits.simps digitChar_def)
  have h: "toHex [0xAB, 0xCD] = ''abcd''"
    by (simp add: toHex_def hexByte_def hexDigit_def)
  have f: "flatArray [Buf [0xAB, 0xCD], Num 1] = Inr (Str ''abcd,1'')"
    by (simp add: flatArray_def n h)
  have m: "formatMs ''multi_a(2, '' (Arr [Buf [0xAB, 0xCD], Num 1]) = Inr ''multi_a(2,abcd,1''"
    by (simp add: formatMs_Arr f formatMs_Str stripWs_def isWhitespace_def)
  have "msString [''multi_a(2, '', '')''] [Arr [Buf [0xAB, 0xCD], Num 1]]
      = Inr ''multi_a(2,abcd,1)''"
    by (simp add: msString_def argAt_def m formatMs_Undefined stripWs_def isWhitespace_def)
  with m show ?thesis by (simp add: homogeneous_def)
qed

text \<open>
  C2, amended. \<open>flatArray\<close> tests each element on its own. A list whose elements are
  each a byte sequence, a compiled policy, a string or a number, of one kind or mixed,
  renders as the formatting of its elements, in order, joined by commas, with no
  separator after the last one. A list holding an element of any other kind fails with
  \<open>Error "Unsupported type"\<close>. A list of \<open>N\<close> byte sequences renders as its \<open>N\<close>
  lowercase hexadecimal strings (two digits per byte) joined by commas.
\<close>

theorem list_rendering:
  "(list_all supported xs \<longrightarrow>
      (\<exists>ss. mapE formatArg xs = Inr ss \<and> length ss = length xs
         \<and> (\<forall>i<length xs. formatArg (xs ! i) = Inr (ss ! i))
         \<and> formatMs str (Arr xs) = Inr (stripWs str @ joinStr '','' ss)))
   \<and> (\<not> list_all supported xs \<longrightarrow> formatMs str (Arr xs) = Inl (Error ''Unsupported type''))
   \<and> formatMs str (Arr (map Buf bs)) = Inr (stripWs str @ joinStr '','' (map toHex bs))
   \<and> (\<forall>b \<in> set bs. length (toHex b) = 2 * length b \<and> set (toHex b) \<subseteq> set ''0123456789abcdef'')
   \<and> joinStr '','' (ss' @ [s]) = (if ss' = [] then s else joinStr '','' ss' @ '','' @ s)"
proof (intro conjI impI ballI)
  assume sup: "list_all supported xs"
  from mapE_supported [OF sup] obtain ss where
    ss: "mapE formatArg xs = Inr ss" "length ss = length xs"
        "\<forall>i<length xs. formatArg (xs ! i) = Inr (ss ! i)"
    by blast
  from formatMs_Arr_supported [OF ss(1) sup]
  have "formatMs str (Arr xs) = Inr (stripWs str @ joinStr '','' ss)" .
  with ss show "\<exists>ss. mapE formatArg xs = Inr ss \<and> length ss = length xs
         \<and> (\<forall>i<length xs. formatArg (xs ! i) = Inr (ss ! i))
         \<and> formatMs str (Arr xs) = Inr (stripWs str @ joinStr '','' ss)"
    by blast
next
  assume "\<not> list_all supported xs"
  then show "formatMs str (Arr xs) = Inl (Error ''Unsupported type'')"
    by (rule formatMs_Arr_unsupported)
next
  show "formatMs str (Arr (map Buf bs)) = Inr (stripWs str @ joinStr '','' (map toHex bs))"
    by (rule formatMs_Arr_Buf)
next
  fix b show "length (toHex b) = 2 * length b" by (rule toHex_length)
next
  fix b show "set (toHex b) \<subseteq> set ''0123456789abcdef''" by (rule toHex_lower)
next
  show "joinStr '','' (ss' @ [s]) = (if ss' = [] then s else joinStr '','' ss' @ '','' @ s)"
    by (rule joinStr_snoc)
qed

theorem list_rendering_witness:
  "list_all supported [Buf [0x01, 0xAB], Num 2, Str ''x'']
   \<and> formatMs ''multi_a( '' (Arr [Buf [0x01, 0xAB], Num 2, Str ''x'']) = Inr ''multi_a(01ab,2,x''
   \<and> \<not> list_all supported [Buf [0x01], Other ''boolean'']
   \<and> formatMs ''multi_a( '' (Arr [Buf [0x01], Other ''boolean'']) = Inl (Error ''Unsupported type'')
   \<and> formatMs ''multi_a( '' (Arr (map Buf [[0x01, 0xAB], [0xFF], [0x00, 0x10]]))
        = Inr ''multi_a(01ab,ff,0010''"
proof -
  let ?xs = "[Buf [0x01, 0xAB], Num 2, Str ''x'']"
  let ?ys = "[Buf [0x01], Other ''boolean'']"
  let ?bs = "[[0x01, 0xAB], [0xFF], [0x00, 0x10]] :: Buffer list"
  have h1: "list_all supported ?xs" by simp
  have h2: "\<not> list_all supported ?ys" by simp
  note t1 = list_rendering [of ?xs "''multi_a( ''" ?bs "[]" "[]"]
  note t2 = list_rendering [of ?ys "''multi_a( ''" "[]" "[]" "[]"]
  from t1 h1 obtain ss where ss: "mapE formatArg ?xs = Inr ss"
      "formatMs ''multi_a( '' (Arr ?xs) = Inr (stripWs ''multi_a( '' @ joinStr '','' ss)"
    by blast
  have "numberToString 2 = ''2''"
    by (simp add: numberToString_safe digits.simps digitChar_def)
  moreover have "toHex [0x01, 0xAB] = ''01ab''"
    by (simp add: toHex_def hexByte_def hexDigit_def)
  ultimately have "mapE formatArg ?xs = Inr [''01ab'', ''2'', ''x'']" by simp
  with ss have "formatMs ''multi_a( '' (Arr ?xs)
      = Inr (stripWs ''multi_a( '' @ joinStr '','' [''01ab'', ''2'', ''x''])"
    by simp
  also have "\<dots> = Inr ''multi_a(01ab,2,x''" by code_simp
  finally have c1: "formatMs ''multi_a( '' (Arr ?xs) = Inr ''multi_a(01ab,2,x''" .
  from t2 h2 have c2: "formatMs ''multi_a( '' (Arr ?ys) = Inl (Error ''Unsupported type'')"
    by blast
  from t1 have "formatMs ''multi_a( '' (Arr (map Buf ?bs))
      = Inr (stripWs ''multi_a( '' @ joinStr '','' (map toHex ?bs))"
    by blast
  also have "\<dots> = Inr ''multi_a(01ab,ff,0010''" by code_simp
  finally have c3: "formatMs ''multi_a( '' (Arr (map Buf ?bs)) = Inr ''multi_a(01ab,ff,0010''" .
  from h1 h2 c1 c2 c3 show ?thesis by blast
qed

subsection \<open>C3: the error of a failed construction\<close>

text \<open>
  C3, as stated, fails: a staker key of 31 bytes, a finality-provider key of 33 bytes
  and a staking timelock of 65536 all raise the same error, and so do a threshold of 0
  and a staking timelock of 0; the error does not tell the fields apart.
\<close>

theorem generic_error_counterexample:
  "constructor (replicate 31 0) [replicate 32 1] [replicate 32 2] 1 100 10 [0xAA]
     = Inl (Error ''Invalid script data provided'')
   \<and> constructor (replicate 32 0) [replicate 33 1] [replicate 32 2] 1 100 10 [0xAA]
     = Inl (Error ''Invalid script data provided'')
   \<and> constructor (replicate 32 0) [replicate 32 1] [replicate 32 2] 1 65536 10 [0xAA]
     = Inl (Error ''Invalid script data provided'')
   \<and> constructor (replicate 32 0) [replicate 32 1] [replicate 32 2] 0 100 10 [0xAA]
     = Inl (Error ''Missing required input values'')
   \<and> constructor (replicate 32 0) [replicate 32 1] [replicate 32 2] 1 0 10 [0xAA]
     = Inl (Error ''Missing required input values'')"
  by (simp add: constructor_def validate_def PK_LENGTH_def falsyObject_def falsyNumber_def)

text \<open>
  C3, amended. A failed construction raises one of two fixed errors, neither of which
  names a field: \<open>Error "Missing required input values"\<close> exactly when the covenant
  threshold, the staking timelock or the unbonding timelock is 0, and
  \<open>Error "Invalid script data provided"\<close> exactly when none of the three is 0 and
  \<open>validate\<close> returns false (a key that is not 32 bytes long, or a staking timelock
  above 65535).
\<close>

theorem constructor_errors:
  "constructor sk fps cks ct st ut mb = Inl e \<longleftrightarrow>
     (e = Error ''Missing required input values'' \<and> (ct = 0 \<or> st = 0 \<or> ut = 0))
     \<or> (e = Error ''Invalid script data provided'' \<and> ct \<noteq> 0 \<and> st \<noteq> 0 \<and> ut \<noteq> 0
         \<and> (length sk \<noteq> 32 \<or> \<not> list_all (\<lambda>k. length k = 32) fps
             \<or> \<not> list_all (\<lambda>k. length k = 32) cks \<or> 65535 < st))"
proof (cases "ct = 0 \<or> st = 0 \<or> ut = 0")
  case True
  then have "constructor sk fps cks ct st ut mb = Inl (Error ''Missing required input values'')"
    by (auto simp: constructor_def falsyObject_def falsyNumber_def)
  with True show ?thesis by auto
next
  case nz: False
  show ?thesis
  proof (cases "validate \<lparr> stakerKey = sk, finalityProviderKeys = fps, covenantKeys = cks,
      covenantThreshold = ct, stakingTimeLock = st, unbondingTimeLock = ut, magicBytes = mb \<rparr>")
    case True
    with nz have "constructor sk fps cks ct st ut mb
        = Inr \<lparr> stakerKey = sk, finalityProviderKeys = fps, covenantKeys = cks,
            covenantThreshold = ct, stakingTimeLock = st, unbondingTimeLock = ut,
            magicBytes = mb \<rparr>"
      by (simp add: constructor_def falsyObject_def falsyNumber_def)
    with True nz show ?thesis by (simp add: validate_iff)
  next
    case invalid: False
    with nz have "constructor sk fps cks ct st ut mb
        = Inl (Error ''Invalid script data provided'')"
      by (simp add: constructor_def falsyObject_def falsyNumber_def)
    with nz invalid show ?thesis by (auto simp: validate_iff)
  qed
qed

theorem constructor_errors_witness:
  "constructor (replicate 32 0) [replicate 32 1] [replicate 31 2] 1 100 10 [0xAA]
     = Inl (Error ''Invalid script data provided'')
   \<and> constructor (replicate 32 0) [replicate 32 1] [replicate 32 2] 1 100 0 [0xAA]
     = Inl (Error ''Missing required input values'')"
  using constructor_errors [of "replicate 32 0" "[replicate 32 1]" "[replicate 31 2]" 1 100 10
      "[0xAA]" "Error ''Invalid script data provided''"]
    constructor_errors [of "replicate 32 0" "[replicate 32 1]" "[replicate 32 2]" 1 100 0
      "[0xAA]" "Error ''Missing required input values''"]
  by simp

subsection \<open>C4: the payload of the data embed script\<close>

text \<open>
  C4. With magic bytes \<open>AA BB CC DD\<close>, a staker key of 32 zero bytes, a first
  finality-provider key of 32 bytes \<open>FF\<close> and a staking timelock of 100, the payload
  is the magic bytes, the version byte 0, the staker key, the provider key and
  \<open>00 64\<close>, 71 bytes in all. In general, when there is a first provider key and the
  staking timelock fits 16 bits, the payload is the magic bytes, the version byte 0,
  the staker key, the first provider key and the timelock as two bytes, high byte
  first; it is the single data push that follows \<open>OP_RETURN\<close>.
\<close>

theorem data_embed_payload:
  "serializedStakingData
     \<lparr> stakerKey = replicate 32 0x00, finalityProviderKeys = replicate 32 0xFF # rest,
       covenantKeys = cks, covenantThreshold = ct, stakingTimeLock = 100,
       unbondingTimeLock = ut, magicBytes = [0xAA, 0xBB, 0xCC, 0xDD] \<rparr>
     = Inr ([0xAA, 0xBB, 0xCC, 0xDD] @ [0x00] @ replicate 32 0x00 @ replicate 32 0xFF @ [0x00, 0x64])
   \<and> length ([0xAA, 0xBB, 0xCC, 0xDD] @ [0x00] @ replicate 32 (0x00 :: 8 word)
              @ replicate 32 0xFF @ [0x00, 0x64]) = 71
   \<and> (finalityProviderKeys this = fp # fps \<and> 0 \<le> stakingTimeLock this
        \<and> stakingTimeLock this \<le> 65535 \<longrightarrow>
      serializedStakingData this
        = Inr (magicBytes this @ [0x00] @ stakerKey this @ fp
               @ [word_of_int (stakingTimeLock this div 256),
                  word_of_int (stakingTimeLock this mod 256)])
      \<and> buildDataEmbedScript compile this
        = compile [Opcode OP_RETURN,
                   Data (magicBytes this @ [0x00] @ stakerKey this @ fp
                         @ [word_of_int (stakingTimeLock this div 256),
                            word_of_int (stakingTimeLock this mod 256)])])"
proof (intro conjI impI)
  show "serializedStakingData
     \<lparr> stakerKey = replicate 32 0x00, finalityProviderKeys = replicate 32 0xFF # rest,
       covenantKeys = cks, covenantThreshold = ct, stakingTimeLock = 100,
       unbondingTimeLock = ut, magicBytes = [0xAA, 0xBB, 0xCC, 0xDD] \<rparr>
     = Inr ([0xAA, 0xBB, 0xCC, 0xDD] @ [0x00] @ replicate 32 0x00 @ replicate 32 0xFF @ [0x00, 0x64])"
    by (simp add: serializedStakingData_def writeUInt16BE_def first_def)
next
  show "length ([0xAA, 0xBB, 0xCC, 0xDD] @ [0x00] @ replicate 32 (0x00 :: 8 word)
              @ replicate 32 0xFF @ [0x00, 0x64]) = 71"
    by simp
next
  assume h: "finalityProviderKeys this = fp # fps \<and> 0 \<le> stakingTimeLock this
        \<and> stakingTimeLock this \<le> 65535"
  then show p: "serializedStakingData this
        = Inr (magicBytes this @ [0x00] @ stakerKey this @ fp
               @ [word_of_int (stakingTimeLock this div 256),
                  word_of_int (stakingTimeLock this mod 256)])"
    using serializedStakingData_ok [of this fp fps] by simp
  show "buildDataEmbedScript compile this
        = compile [Opcode OP_RETURN,
                   Data (magicBytes this @ [0x00] @ stakerKey this @ fp
                         @ [word_of_int (stakingTimeLock this div 256),
                            word_of_int (stakingTimeLock this mod 256)])]"
    by (simp add: buildDataEmbedScript_def p)
qed

theorem data_embed_payload_witness:
  "serializedStakingData
     \<lparr> stakerKey = [0x11, 0x22], finalityProviderKeys = [[0x33], [0x44]],
       covenantKeys = [], covenantThreshold = 1, stakingTimeLock = 4660,
       unbondingTimeLock = 7, magicBytes = [0x62, 0x62] \<rparr>
   = Inr [0x62, 0x62, 0x00, 0x11, 0x22, 0x33, 0x12, 0x34]"
  using data_embed_payload [where
     this = "\<lparr> stakerKey = [0x11, 0x22], finalityProviderKeys = [[0x33], [0x44]],
       covenantKeys = [], covenantThreshold = 1, stakingTimeLock = 4660,
       unbondingTimeLock = 7, magicBytes = [0x62, 0x62] \<rparr>"
     and fp = "[0x33]" and fps = "[[0x44]]"]
  by simp

subsection \<open>C5: the timelock script\<close>

text \<open>
  C5. With a staker key of 32 bytes \<open>01\<close> and a timelock of 144,
  \<open>buildTimelockScript\<close> hands the external compiler exactly the text
  \<open>and_v(v:pk(0101...01),older(144))\<close>, the key as 64 lowercase hexadecimal digits,
  and returns the encoding of what the compiler gives back. In general the text is
  \<open>and_v(v:pk(\<close>key\<open>),older(\<close>timelock\<open>))\<close>, and the staking and the unbonding
  timelock scripts are this builder at the staking and at the unbonding timelock.
\<close>

theorem timelock_script_text:
  "buildTimelockScript fromString (this\<lparr>stakerKey := replicate 32 0x01\<rparr>) 144
     = map_sum id toBuffer
         (fromString
            ''and_v(v:pk(0101010101010101010101010101010101010101010101010101010101010101),older(144))'')
   \<and> length ''0101010101010101010101010101010101010101010101010101010101010101'' = 64
   \<and> buildTimelockScript fromString this timelock
     = map_sum id toBuffer
         (fromString (''and_v(v:pk('' @ toHex (stakerKey this) @ ''),older(''
                        @ numberToString timelock @ ''))''))
   \<and> buildStakingTimelockScript fromString this
     = buildTimelockScript fromString this (stakingTimeLock this)
   \<and> buildUnbondingTimelockScript fromString this
     = buildTimelockScript fromString this (unbondingTimeLock this)"
proof -
  have k: "toHex (replicate 32 0x01)
      = ''0101010101010101010101010101010101010101010101010101010101010101''"
    by code_simp
  have n: "numberToString 144 = ''144''"
    by (simp add: numberToString_safe digits.simps digitChar_def)
  have "buildTimelockScript fromString (this\<lparr>stakerKey := replicate 32 0x01\<rparr>) 144
     = map_sum id toBuffer
         (fromString
            ''and_v(v:pk(0101010101010101010101010101010101010101010101010101010101010101),older(144))'')"
    unfolding buildTimelockScript_text by (simp add: k n)
  then show ?thesis
    by (simp add: buildTimelockScript_text buildStakingTimelockScript_def
        buildUnbondingTimelockScript_def)
qed

theorem timelock_script_text_witness:
  "buildStakingTimelockScript (\<lambda>s. Inr \<lparr>ms_toString = s, ms_encode = map of_char s\<rparr>)
     \<lparr> stakerKey = replicate 32 0x01, finalityProviderKeys = [replicate 32 0xFF],
       covenantKeys = [replicate 32 0x02], covenantThreshold = 1, stakingTimeLock = 144,
       unbondingTimeLock = 10, magicBytes = [0xAA] \<rparr>
   = Inr (map of_char
      ''and_v(v:pk(0101010101010101010101010101010101010101010101010101010101010101),older(144))'')"
  using timelock_script_text [of "\<lambda>s. Inr \<lparr>ms_toString = s, ms_encode = map of_char s\<rparr>"
     "\<lparr> stakerKey = replicate 32 0x01, finalityProviderKeys = [replicate 32 0xFF],
       covenantKeys = [replicate 32 0x02], covenantThreshold = 1, stakingTimeLock = 144,
       unbondingTimeLock = 10, magicBytes = [0xAA] \<rparr>" 144]
  by (simp add: toBuffer_def)

subsection \<open>C6: the slashing script\<close>

text \<open>
  C6. With one finality-provider key and a threshold of 2 over three covenant keys,
  \<open>buildSlashingScript\<close> hands the external compiler exactly the text
  \<open>and_v(and_v(v:pk(staker),v:pk(fp)),multi_a(2,c1,c2,c3))\<close>, every key in
  hexadecimal and in the order supplied.
\<close>

theorem slashing_script_text:
  "buildSlashingScript fromString
     (this\<lparr>finalityProviderKeys := [fp], covenantKeys := [c1, c2, c3], covenantThreshold := 2\<rparr>)
   = map_sum id toBuffer
       (fromString (''and_v(and_v(v:pk('' @ toHex (stakerKey this) @ ''),v:pk('' @ toHex fp
                      @ '')),multi_a(2,'' @ toHex c1 @ '','' @ toHex c2 @ '','' @ toHex c3
                      @ ''))''))"
proof -
  have n: "numberToString 2 = ''2''"
    by (simp add: numberToString_safe digits.simps digitChar_def)
  show ?thesis unfolding buildSlashingScript_text by (simp add: n)
qed

theorem slashing_script_text_witness:
  "buildSlashingScript (\<lambda>s. Inr \<lparr>ms_toString = s, ms_encode = map of_char s\<rparr>)
     \<lparr> stakerKey = [0x0A], finalityProviderKeys = [[0xF0]],
       covenantKeys = [[0xC1], [0xC2], [0xC3]], covenantThreshold = 2, stakingTimeLock = 144,
       unbondingTimeLock = 10, magicBytes = [0xAA] \<rparr>
   = Inr (map of_char ''and_v(and_v(v:pk(0a),v:pk(f0)),multi_a(2,c1,c2,c3))'')"
proof -
  have h: "toHex [0x0A] = ''0a''" "toHex [0xF0] = ''f0''" "toHex [0xC1] = ''c1''"
      "toHex [0xC2] = ''c2''" "toHex [0xC3] = ''c3''"
    by code_simp+
  show ?thesis
    using slashing_script_text [where
       fromString = "\<lambda>s. Inr \<lparr>ms_toString = s, ms_encode = map of_char s\<rparr>"
       and this = "\<lparr> stakerKey = [0x0A], finalityProviderKeys = [[0xF0]],
         covenantKeys = [[0xC1], [0xC2], [0xC3]], covenantThreshold = 2, stakingTimeLock = 144,
         unbondingTimeLock = 10, magicBytes = [0xAA] \<rparr>"
       and fp = "[0xF0]" and ?c1.0 = "[0xC1]" and ?c2.0 = "[0xC2]" and ?c3.0 = "[0xC3]"]
    by (simp add: toBuffer_def h)
qed

subsection \<open>C7: the bundle is all or nothing\<close>

text \<open>
  C7. \<open>buildScripts\<close> returns a bundle exactly when all five builds succeed, and the
  bundle then holds their five results; if any of the five builds fails, it returns
  no bundle but an error; and the error it returns is the error of one of the builds,
  unchanged.
\<close>

theorem buildScripts_atomic:
  "(buildScripts fromString compile this = Inr scripts \<longleftrightarrow>
      buildStakingTimelockScript fromString this = Inr (timelockScript scripts)
      \<and> buildUnbondingScript fromString this = Inr (unbondingScript scripts)
      \<and> buildSlashingScript fromString this = Inr (slashingScript scripts)
      \<and> buildUnbondingTimelockScript fromString this = Inr (unbondingTimelockScript scripts)
      \<and> buildDataEmbedScript compile this = Inr (dataEmbedScript scripts))
   \<and> (isl (buildStakingTimelockScript fromString this)
       \<or> isl (buildUnbondingScript fromString this)
       \<or> isl (buildSlashingScript fromString this)
       \<or> isl (buildUnbondingTimelockScript fromString this)
       \<or> isl (buildDataEmbedScript compile this)
       \<longrightarrow> isl (buildScripts fromString compile this))
   \<and> (buildScripts fromString compile this = Inl e \<longrightarrow>
       buildStakingTimelockScript fromString this = Inl e
       \<or> buildUnbondingScript fromString this = Inl e
       \<or> buildSlashingScript fromString this = Inl e
       \<or> buildUnbondingTimelockScript fromString this = Inl e
       \<or> buildDataEmbedScript compile this = Inl e)"
proof (intro conjI)
  show "buildScripts fromString compile this = Inr scripts \<longleftrightarrow>
      buildStakingTimelockScript fromString this = Inr (timelockScript scripts)
      \<and> buildUnbondingScript fromString this = Inr (unbondingScript scripts)
      \<and> buildSlashingScript fromString this = Inr (slashingScript scripts)
      \<and> buildUnbondingTimelockScript fromString this = Inr (unbondingTimelockScript scripts)
      \<and> buildDataEmbedScript compile this = Inr (dataEmbedScript scripts)"
    by (cases scripts) (auto simp: buildScripts_def split: sum.splits)
next
  show "isl (buildStakingTimelockScript fromString this)
       \<or> isl (buildUnbondingScript fromString this)
       \<or> isl (buildSlashingScript fromString this)
       \<or> isl (buildUnbondingTimelockScript fromString this)
       \<or> isl (buildDataEmbedScript compile this)
       \<longrightarrow> isl (buildScripts fromString compile this)"
    by (auto simp: buildScripts_def split: sum.splits)
next
  show "buildScripts fromString compile this = Inl e \<longrightarrow>
       buildStakingTimelockScript fromString this = Inl e
       \<or> buildUnbondingScript fromString this = Inl e
       \<or> buildSlashingScript fromString this = Inl e
       \<or> buildUnbondingTimelockScript fromString this = Inl e
       \<or> buildDataEmbedScript compile this = Inl e"
    by (auto simp: buildScripts_def split: sum.splits)
qed

theorem buildScripts_atomic_witness:
  "buildDataEmbedScript (\<lambda>cs. Inr [])
     \<lparr> stakerKey = [0x01], finalityProviderKeys = [], covenantKeys = [[0x02]],
       covenantThreshold = 1, stakingTimeLock = 5, unbondingTimeLock = 7, magicBytes = [0x62] \<rparr>
     = Inl TypeError
   \<and> buildScripts (\<lambda>s. Inr \<lparr>ms_toString = s, ms_encode = []\<rparr>) (\<lambda>cs. Inr [])
     \<lparr> stakerKey = [0x01], finalityProviderKeys = [], covenantKeys = [[0x02]],
       covenantThreshold = 1, stakingTimeLock = 5, unbondingTimeLock = 7, magicBytes = [0x62] \<rparr>
     = Inl TypeError"
proof -
  let ?fs = "\<lambda>s :: string. Inr \<lparr>ms_toString = s, ms_encode = []\<rparr> :: error + Miniscript"
  let ?c = "\<lambda>cs :: chunk list. Inr [] :: error + Buffer"
  let ?d = "\<lparr> stakerKey = [0x01], finalityProviderKeys = [], covenantKeys = [[0x02]],
       covenantThreshold = 1, stakingTimeLock = 5, unbondingTimeLock = 7, magicBytes = [0x62] \<rparr>"
  have de: "buildDataEmbedScript ?c ?d = Inl TypeError"
    by (simp add: buildDataEmbedScript_def serializedStakingData_empty)
  have ok: "buildStakingTimelockScript ?fs ?d = Inr []" "buildUnbondingScript ?fs ?d = Inr []"
      "buildSlashingScript ?fs ?d = Inr []" "buildUnbondingTimelockScript ?fs ?d = Inr []"
    by (simp_all add: buildStakingTimelockScript_def buildUnbondingTimelockScript_def
        buildTimelockScript_text buildUnbondingScript_text buildSlashingScript_text toBuffer_def)
  note t = buildScripts_atomic [where fromString = ?fs and compile = ?c and this = ?d]
  from t de have "isl (buildScripts ?fs ?c ?d)" by simp
  then obtain e where e: "buildScripts ?fs ?c ?d = Inl e" by (auto simp: isl_def)
  with t [where e = e] ok de have "e = TypeError" by simp
  with e de show ?thesis by simp
qed

subsection \<open>C8: whitespace in the literal fragments\<close>

text \<open>
  C8. A template renders the same, and reaches the external compiler with the same
  text, whether or not spaces, tabs, newlines and carriage returns have been removed
  from its literal fragments, whatever the arguments are; every fragment is stripped
  of whitespace before it is concatenated, so that a template without arguments
  renders as the concatenation of its stripped fragments.
\<close>

theorem whitespace_insensitive:
  "msString (map removeWhitespace strings) args = msString strings args
   \<and> formatMsVararg fromString (map removeWhitespace strings) args
        = formatMsVararg fromString strings args
   \<and> msString (map stripWs strings) args = msString strings args
   \<and> formatMs str arg = formatMs (stripWs str) arg
   \<and> msString strings [] = Inr (concat (map stripWs strings))"
proof -
  have a: "list_all2 (\<lambda>s t. stripWs s = stripWs t) (map removeWhitespace strings) strings"
    by (simp add: list_all2_map1 stripWs_removeWhitespace list_all2_same)
  have b: "list_all2 (\<lambda>s t. stripWs s = stripWs t) (map stripWs strings) strings"
    by (simp add: list_all2_map1 stripWs_idem list_all2_same)
  have 1: "msString (map removeWhitespace strings) args = msString strings args"
    unfolding msString_def by (rule reduceMs_cong [OF a])
  have 3: "msString (map stripWs strings) args = msString strings args"
    unfolding msString_def by (rule reduceMs_cong [OF b])
  have 5: "msString strings [] = Inr (concat (map stripWs strings))"
    by (simp add: msString_def reduceMs_no_args)
  show ?thesis using 1 3 5 by (simp add: formatMsVararg_def formatMs_stripWs)
qed

theorem whitespace_insensitive_witness:
  "msString [''pk( \<newline>   '', ''\<newline>  )  ''] [Buf [0x0A, 0x20]] = Inr ''pk(0a20)''
   \<and> msString (map removeWhitespace [''pk( \<newline>   '', ''\<newline>  )  '']) [Buf [0x0A, 0x20]]
        = Inr ''pk(0a20)''
   \<and> map removeWhitespace [''pk( \<newline>   '', ''\<newline>  )  ''] = [''pk('', '')'']"
  using whitespace_insensitive [of "[''pk( \<newline>   '', ''\<newline>  )  '']" "[Buf [0x0A, 0x20]]"]
  by code_simp

subsection \<open>C9: an empty list of finality-provider keys\<close>

text \<open>
  C9. With an empty list of finality-provider keys and the other arguments accepted
  (a 32-byte staker key, 32-byte covenant keys, a threshold and an unbonding timelock
  that are not 0, a staking timelock from 1 to 65535), construction succeeds, and
  \<open>buildDataEmbedScript\<close> on the object then fails with the \<open>TypeError\<close> of
  \<open>Buffer.concat\<close>, whatever the opcode assembler does.
\<close>

theorem empty_provider_list:
  "length sk = 32 \<Longrightarrow> list_all (\<lambda>k. length k = 32) cks \<Longrightarrow> ct \<noteq> 0 \<Longrightarrow> 0 < st \<Longrightarrow>
   st \<le> 65535 \<Longrightarrow> ut \<noteq> 0 \<Longrightarrow>
   constructor sk [] cks ct st ut mb
     = Inr \<lparr> stakerKey = sk, finalityProviderKeys = [], covenantKeys = cks,
             covenantThreshold = ct, stakingTimeLock = st, unbondingTimeLock = ut,
             magicBytes = mb \<rparr>
   \<and> buildDataEmbedScript compile
       \<lparr> stakerKey = sk, finalityProviderKeys = [], covenantKeys = cks,
         covenantThreshold = ct, stakingTimeLock = st, unbondingTimeLock = ut,
         magicBytes = mb \<rparr>
     = Inl TypeError"
  by (simp add: constructor_Inr_iff buildDataEmbedScript_def serializedStakingData_empty)

theorem empty_provider_list_witness:
  "constructor (replicate 32 0) [] [replicate 32 2] 1 100 10 [0xAA]
     = Inr \<lparr> stakerKey = replicate 32 0, finalityProviderKeys = [],
             covenantKeys = [replicate 32 2], covenantThreshold = 1, stakingTimeLock = 100,
             unbondingTimeLock = 10, magicBytes = [0xAA] \<rparr>
   \<and> buildDataEmbedScript (\<lambda>cs. Inr [])
       \<lparr> stakerKey = replicate 32 0, finalityProviderKeys = [],
         covenantKeys = [replicate 32 2], covenantThreshold = 1, stakingTimeLock = 100,
         unbondingTimeLock = 10, magicBytes = [0xAA] \<rparr>
     = Inl TypeError"
  using empty_provider_list [of "replicate 32 0" "[replicate 32 2]" 1 100 10 "[0xAA]" "\<lambda>cs. Inr []"]
  by simp

subsection \<open>C10: the unbonding timelock has no upper bound\<close>

text \<open>
  C10, as stated, fails. An unbonding timelock of \<open>10^21\<close> is accepted, and the text
  handed to the external compiler (which reports here the text it is given) ends in
  \<open>older(1e+21)\<close>: exponent notation, not a decimal literal. An unbonding timelock of
  \<open>2^64\<close> is accepted and rendered as \<open>18446744073709552000\<close>, a decimal literal of
  another value.
\<close>

theorem unbonding_timelock_decimal_counterexample:
  "constructor (replicate 32 1) [replicate 32 2] [replicate 32 3] 1 100 1000000000000000000000 [0xAA]
     = Inr \<lparr> stakerKey = replicate 32 1, finalityProviderKeys = [replicate 32 2],
             covenantKeys = [replicate 32 3], covenantThreshold = 1, stakingTimeLock = 100,
             unbondingTimeLock = 1000000000000000000000, magicBytes = [0xAA] \<rparr>
   \<and> buildUnbondingTimelockScript (Inl \<circ> External)
       \<lparr> stakerKey = replicate 32 1, finalityProviderKeys = [replicate 32 2],
         covenantKeys = [replicate 32 3], covenantThreshold = 1, stakingTimeLock = 100,
         unbondingTimeLock = 1000000000000000000000, magicBytes = [0xAA] \<rparr>
     = Inl (External
        ''and_v(v:pk(0101010101010101010101010101010101010101010101010101010101010101),older(1e+21))'')
   \<and> numberToString 1000000000000000000000 = ''1e+21''
   \<and> \<not> isDecimalLiteral (numberToString 1000000000000000000000)
   \<and> constructor (replicate 32 1) [replicate 32 2] [replicate 32 3] 1 100 18446744073709551616 [0xAA]
     = Inr \<lparr> stakerKey = replicate 32 1, finalityProviderKeys = [replicate 32 2],
             covenantKeys = [replicate 32 3], covenantThreshold = 1, stakingTimeLock = 100,
             unbondingTimeLock = 18446744073709551616, magicBytes = [0xAA] \<rparr>
   \<and> buildUnbondingTimelockScript (Inl \<circ> External)
       \<lparr> stakerKey = replicate 32 1, finalityProviderKeys = [replicate 32 2],
         covenantKeys = [replicate 32 3], covenantThreshold = 1, stakingTimeLock = 100,
         unbondingTimeLock = 18446744073709551616, magicBytes = [0xAA] \<rparr>
     = Inl (External
        ''and_v(v:pk(0101010101010101010101010101010101010101010101010101010101010101),older(18446744073709552000))'')
   \<and> numberToString 18446744073709551616 = ''18446744073709552000''
   \<and> int (decimalValue (numberToString 18446744073709551616)) \<noteq> 18446744073709551616"
proof -
  have k: "toHex (replicate 32 0x01)
      = ''0101010101010101010101010101010101010101010101010101010101010101''"
    by code_simp
  have n1: "numberToString 1000000000000000000000 = ''1e+21''"
    by (simp add: numberToString_def natToString_def digits.simps digitChar_def candidates_def
        fits_def roundToDouble_def roundAt_def bitLength.simps closer_def distance_def
        formatDecimal_def)
  have n2: "numberToString 18446744073709551616 = ''18446744073709552000''"
    by (simp add: numberToString_def natToString_def digits.simps digitChar_def candidates_def
        fits_def roundToDouble_def roundAt_def bitLength.simps closer_def distance_def
        formatDecimal_def)
  have l1: "\<not> isDecimalLiteral ''1e+21''"
    by (simp add: isDecimalLiteral_def)
  have l2: "int (decimalValue ''18446744073709552000'') \<noteq> 18446744073709551616"
    by (simp add: decimalValue_def)
  have c: "constructor (replicate 32 1) [replicate 32 2] [replicate 32 3] 1 100 ut [0xAA]
     = Inr \<lparr> stakerKey = replicate 32 1, finalityProviderKeys = [replicate 32 2],
             covenantKeys = [replicate 32 3], covenantThreshold = 1, stakingTimeLock = 100,
             unbondingTimeLock = ut, magicBytes = [0xAA] \<rparr>" if "ut \<noteq> 0" for ut
    using that by (simp add: constructor_Inr_iff)
  have b: "buildUnbondingTimelockScript (Inl \<circ> External)
       \<lparr> stakerKey = replicate 32 1, finalityProviderKeys = [replicate 32 2],
         covenantKeys = [replicate 32 3], covenantThreshold = 1, stakingTimeLock = 100,
         unbondingTimeLock = ut, magicBytes = [0xAA] \<rparr>
     = Inl (External
        (''and_v(v:pk(0101010101010101010101010101010101010101010101010101010101010101),older(''
         @ numberToString ut @ ''))''))" for ut
    by (simp add: buildUnbondingTimelockScript_def buildTimelockScript_text k)
  show ?thesis
    using c [of 1000000000000000000000] c [of 18446744073709551616]
      b [of 1000000000000000000000] b [of 18446744073709551616] l1 l2
    by (simp add: n1 n2)
qed

text \<open>
  C10, amended. With the other arguments accepted, construction succeeds for every
  unbonding timelock from 1 upwards, above 65535 too, and
  \<open>buildUnbondingTimelockScript\<close> hands the external compiler the text
  \<open>and_v(v:pk(\<close>key\<open>),older(\<close>n\<open>))\<close> where \<open>n\<close> is what \<open>toString\<close> prints for the
  unbonding timelock; for every unbonding timelock from 1 to \<open>2^53 - 1\<close>, \<open>n\<close> is a
  decimal literal whose value is the unbonding timelock. A staking timelock above 65535
  is refused.
\<close>

theorem unbonding_timelock_safe_range:
  "(length sk = 32 \<and> list_all (\<lambda>k. length k = 32) fps \<and> list_all (\<lambda>k. length k = 32) cks
      \<and> ct \<noteq> 0 \<and> st \<noteq> 0 \<and> st \<le> 65535 \<and> 1 \<le> ut \<longrightarrow>
      constructor sk fps cks ct st ut mb
        = Inr \<lparr> stakerKey = sk, finalityProviderKeys = fps, covenantKeys = cks,
                covenantThreshold = ct, stakingTimeLock = st, unbondingTimeLock = ut,
                magicBytes = mb \<rparr>
      \<and> buildUnbondingTimelockScript fromString
          \<lparr> stakerKey = sk, finalityProviderKeys = fps, covenantKeys = cks,
            covenantThreshold = ct, stakingTimeLock = st, unbondingTimeLock = ut,
            magicBytes = mb \<rparr>
        = map_sum id toBuffer
            (fromString (''and_v(v:pk('' @ toHex sk @ ''),older('' @ numberToString ut @ ''))'')))
   \<and> (1 \<le> ut \<and> ut \<le> 9007199254740991 \<longrightarrow>
        isDecimalLiteral (numberToString ut) \<and> int (decimalValue (numberToString ut)) = ut)
   \<and> (65535 < st \<longrightarrow> isl (constructor sk fps cks ct st ut mb))"
proof (intro conjI impI)
  assume h: "length sk = 32 \<and> list_all (\<lambda>k. length k = 32) fps
      \<and> list_all (\<lambda>k. length k = 32) cks \<and> ct \<noteq> 0 \<and> st \<noteq> 0 \<and> st \<le> 65535 \<and> 1 \<le> ut"
  then show "constructor sk fps cks ct st ut mb
        = Inr \<lparr> stakerKey = sk, finalityProviderKeys = fps, covenantKeys = cks,
                covenantThreshold = ct, stakingTimeLock = st, unbondingTimeLock = ut,
                magicBytes = mb \<rparr>"
    by (simp add: constructor_Inr_iff)
  show "buildUnbondingTimelockScript fromString
          \<lparr> stakerKey = sk, finalityProviderKeys = fps, covenantKeys = cks,
            covenantThreshold = ct, stakingTimeLock = st, unbondingTimeLock = ut,
            magicBytes = mb \<rparr>
        = map_sum id toBuffer
            (fromString (''and_v(v:pk('' @ toHex sk @ ''),older('' @ numberToString ut @ ''))''))"
    by (simp add: buildUnbondingTimelockScript_def buildTimelockScript_text)
next
  assume r: "1 \<le> ut \<and> ut \<le> 9007199254740991"
  then have "- (2 ^ 53) < ut" "ut < 2 ^ 53" by simp_all
  from numberToString_safe [OF this] r have n: "numberToString ut = digits (nat ut)" by simp
  show "isDecimalLiteral (numberToString ut)" unfolding n by (rule digits_literal)
  from r show "int (decimalValue (numberToString ut)) = ut" unfolding n by (simp add: digits_value)
next
  assume "65535 < st"
  then have "\<And>d. constructor sk fps cks ct st ut mb \<noteq> Inr d"
    by (simp add: constructor_Inr_iff)
  then show "isl (constructor sk fps cks ct st ut mb)"
    by (cases "constructor sk fps cks ct st ut mb") auto
qed

theorem unbonding_timelock_safe_range_witness:
  "constructor (replicate 32 1) [replicate 32 2] [replicate 32 3] 1 100 70000 [0xAA]
     = Inr \<lparr> stakerKey = replicate 32 1, finalityProviderKeys = [replicate 32 2],
             covenantKeys = [replicate 32 3], covenantThreshold = 1, stakingTimeLock = 100,
             unbondingTimeLock = 70000, magicBytes = [0xAA] \<rparr>
   \<and> buildUnbondingTimelockScript (\<lambda>s. Inr \<lparr>ms_toString = s, ms_encode = map of_char s\<rparr>)
       \<lparr> stakerKey = replicate 32 1, finalityProviderKeys = [replicate 32 2],
         covenantKeys = [replicate 32 3], covenantThreshold = 1, stakingTimeLock = 100,
         unbondingTimeLock = 70000, magicBytes = [0xAA] \<rparr>
     = Inr (map of_char
        ''and_v(v:pk(0101010101010101010101010101010101010101010101010101010101010101),older(70000))'')
   \<and> isDecimalLiteral (numberToString 70000)
   \<and> int (decimalValue (numberToString 70000)) = 70000
   \<and> isl (constructor (replicate 32 1) [replicate 32 2] [replicate 32 3] 1 70000 100 [0xAA])"
proof -
  have k: "toHex (replicate 32 0x01)
      = ''0101010101010101010101010101010101010101010101010101010101010101''"
    by code_simp
  have n: "numberToString 70000 = ''70000''"
    by (simp add: numberToString_safe digits.simps digitChar_def)
  note t1 = unbonding_timelock_safe_range [where sk = "replicate 32 1" and fps = "[replicate 32 2]"
      and cks = "[replicate 32 3]" and ct = 1 and st = 100 and ut = 70000 and mb = "[0xAA]"
      and fromString = "\<lambda>s. Inr \<lparr>ms_toString = s, ms_encode = map of_char s\<rparr>"]
  note t2 = unbonding_timelock_safe_range [where sk = "replicate 32 1" and fps = "[replicate 32 2]"
      and cks = "[replicate 32 3]" and ct = 1 and st = 70000 and ut = 100 and mb = "[0xAA]"]
  have h1: "length (replicate 32 (1 :: 8 word)) = 32
      \<and> list_all (\<lambda>k. length k = 32) [replicate 32 (2 :: 8 word)]
      \<and> list_all (\<lambda>k. length k = 32) [replicate 32 (3 :: 8 word)]
      \<and> (1 :: int) \<noteq> 0 \<and> (100 :: int) \<noteq> 0 \<and> (100 :: int) \<le> 65535 \<and> (1 :: int) \<le> 70000"
    by simp
  have h2: "(65535 :: int) < 70000" by simp
  have h3: "(1 :: int) \<le> 70000 \<and> (70000 :: int) \<le> 9007199254740991" by simp
  from t1 h1 have c1: "constructor (replicate 32 1) [replicate 32 2] [replicate 32 3] 1 100 70000 [0xAA]
     = Inr \<lparr> stakerKey = replicate 32 1, finalityProviderKeys = [replicate 32 2],
             covenantKeys = [replicate 32 3], covenantThreshold = 1, stakingTimeLock = 100,
             unbondingTimeLock = 70000, magicBytes = [0xAA] \<rparr>"
    by blast
  from t1 h1 have "buildUnbondingTimelockScript (\<lambda>s. Inr \<lparr>ms_toString = s, ms_encode = map of_char s\<rparr>)
       \<lparr> stakerKey = replicate 32 1, finalityProviderKeys = [replicate 32 2],
         covenantKeys = [replicate 32 3], covenantThreshold = 1, stakingTimeLock = 100,
         unbondingTimeLock = 70000, magicBytes = [0xAA] \<rparr>
     = map_sum id toBuffer
         (Inr \<lparr>ms_toString = ''and_v(v:pk('' @ toHex (replicate 32 1) @ ''),older(''
                  @ numberToString 70000 @ ''))'',
               ms_encode = map of_char (''and_v(v:pk('' @ toHex (replicate 32 1) @ ''),older(''
                  @ numberToString 70000 @ ''))'')\<rparr>)"
    by blast
  then have c2: "buildUnbondingTimelockScript (\<lambda>s. Inr \<lparr>ms_toString = s, ms_encode = map of_char s\<rparr>)
       \<lparr> stakerKey = replicate 32 1, finalityProviderKeys = [replicate 32 2],
         covenantKeys = [replicate 32 3], covenantThreshold = 1, stakingTimeLock = 100,
         unbondingTimeLock = 70000, magicBytes = [0xAA] \<rparr>
     = Inr (map of_char
        ''and_v(v:pk(0101010101010101010101010101010101010101010101010101010101010101),older(70000))'')"
    unfolding k n by (simp add: toBuffer_def)
  from t1 h3 have c3: "isDecimalLiteral (numberToString 70000)
      \<and> int (decimalValue (numberToString 70000)) = 70000"
    by blast
  from t2 h2 have c4: "isl (constructor (replicate 32 1) [replicate 32 2] [replicate 32 3]
      1 70000 100 [0xAA])"
    by blast
  from c1 c2 c3 c4 show ?thesis by blast
qed

end
